theory Spec2Isabelle
  imports Complex_Main
begin

section \<open>The multi-scale vector quantizer of models/quant.py\<close>

text \<open>
  The theory embeds \<^verbatim>\<open>VectorQuantizer2\<close> and the three \<^verbatim>\<open>Phi\<close> sharing policies.
  Python exceptions are values of \<open>error\<close>; a fallible computation returns
  \<open>error + 'a\<close> with \<open>Inl\<close> the exception.  A float is the real number it stands
  for.  Where a float64 result decides which unit is applied or how many positions are
  masked (the position of a scale, the distance to a tick, the number of masked tokens),
  its rounding is modelled by \<open>fl\<close> below; the entries of the usage histogram and the
  margin are computed over the reals, without rounding.
\<close>

datatype error = AssertionError | ZeroDivisionError | IndexError | ValueError | RuntimeError

definition bind_r :: "error + 'a \<Rightarrow> ('a \<Rightarrow> error + 'b) \<Rightarrow> error + 'b" where
  "bind_r r f = (case r of Inl e \<Rightarrow> Inl e | Inr x \<Rightarrow> f x)"

subsection \<open>Floating-point rounding\<close>

text \<open>
  \<open>fl p x\<close> rounds the real \<open>x\<close> to the nearest float with a significand of \<open>p\<close> bits,
  ties to the even significand, as IEEE 754 arithmetic rounds the exact result of an
  operation; \<open>p = 53\<close> for a Python float and for a float64 array.  \<open>rne\<close> rounds to the
  nearest integer, ties to even.  The exponent range is taken to be unbounded: overflow
  and subnormal numbers are left out.
\<close>

definition rne :: "real \<Rightarrow> int" where
  "rne x =
     (let f = \<lfloor>x\<rfloor> in
      if x - of_int f < 1 / 2 then f
      else if 1 / 2 < x - of_int f then f + 1
      else if even f then f else f + 1)"

definition fl :: "nat \<Rightarrow> real \<Rightarrow> real" where
  "fl p x =
     (if x = 0 then 0
      else (let e = \<lfloor>log 2 \<bar>x\<bar>\<rfloor> - int p + 1
            in of_int (rne (x / 2 powr of_int e)) * 2 powr of_int e))"

subsection \<open>Refinement units and their sharing policies\<close>

text \<open>
  \<^verbatim>\<open>np.argmin\<close>: the index of the first occurrence of the minimum; ValueError on an
  empty array.  \<^verbatim>\<open>torch.argmin\<close> and \<^verbatim>\<open>torch.argmax\<close> return the first
  extremum too.
\<close>

fun argmin_first :: "real list \<Rightarrow> nat" where
  "argmin_first [] = 0"
| "argmin_first [x] = 0"
| "argmin_first (x # y # ys) =
     (let j = argmin_first (y # ys) in if x \<le> (y # ys) ! j then 0 else Suc j)"

definition np_argmin :: "real list \<Rightarrow> error + nat" where
  "np_argmin xs = (if xs = [] then Inl ValueError else Inr (argmin_first xs))"

text \<open>
  The three policies.  \<open>PhiShared\<close> holds one unit; the other two hold \<open>K\<close> units and
  the float64 array \<^verbatim>\<open>ticks\<close> of \<open>K\<close> entries that \<^verbatim>\<open>__init__\<close> gets from
  \<^verbatim>\<open>np.linspace\<close>.  The array is part of the state of the policy; how
  \<^verbatim>\<open>np.linspace\<close> rounds its samples is not modelled.
\<close>

datatype phi_policy = PhiShared | PhiPartiallyShared "real list" | PhiNonShared "real list"

text \<open>
  \<^verbatim>\<open>__getitem__\<close>: the index (into the unit list) of the unit that serves the
  position \<open>at_from_0_to_1\<close>, \<^verbatim>\<open>np.argmin(np.abs(self.ticks - at_from_0_to_1))\<close>.  The
  subtraction is a float64 operation and is rounded; the absolute value is exact.
  \<open>PhiShared\<close> ignores the position.
\<close>

fun phi_getitem :: "phi_policy \<Rightarrow> real \<Rightarrow> error + nat" where
  "phi_getitem PhiShared at_from_0_to_1 = Inr 0"
| "phi_getitem (PhiPartiallyShared ticks) at_from_0_to_1 =
     np_argmin (map (\<lambda>t. \<bar>fl 53 (t - at_from_0_to_1)\<bar>) ticks)"
| "phi_getitem (PhiNonShared ticks) at_from_0_to_1 =
     np_argmin (map (\<lambda>t. \<bar>fl 53 (t - at_from_0_to_1)\<bar>) ticks)"

subsection \<open>Tensors\<close>

text \<open>
  A tensor carries its shape and dtype; its numerical content is of an abstract type
  \<open>'d\<close>, and every numerical library routine is a field of \<open>kernels\<close>, left
  uninterpreted: the results below hold for every floating-point implementation of the
  kernels.  Shapes and dtypes follow the PyTorch rules.  Autograd is not modelled:
  \<^verbatim>\<open>.detach()\<close>, \<^verbatim>\<open>.data\<close>, \<^verbatim>\<open>.clone()\<close> and \<^verbatim>\<open>.contiguous()\<close> leave a
  value as it is.
\<close>

datatype dtype = Float16 | BFloat16 | Float32 | Float64

record 'd tensor =
  shape :: "nat list"
  dtype :: dtype
  dat :: 'd

datatype interp_mode = Area | Bicubic

record 'd kernels =
  cast_k :: "dtype \<Rightarrow> 'd tensor \<Rightarrow> 'd"
  zeros_k :: "nat list \<Rightarrow> 'd"
  add_k :: "'d tensor \<Rightarrow> 'd tensor \<Rightarrow> 'd"
  sub_k :: "'d tensor \<Rightarrow> 'd tensor \<Rightarrow> 'd"
  scale_k :: "real \<Rightarrow> 'd tensor \<Rightarrow> 'd"
  adds_k :: "real \<Rightarrow> 'd tensor \<Rightarrow> 'd"
  interp_k :: "interp_mode \<Rightarrow> nat \<times> nat \<Rightarrow> 'd tensor \<Rightarrow> 'd"
  conv_k :: "nat \<Rightarrow> 'd tensor \<Rightarrow> 'd"
  embed_k :: "nat list \<Rightarrow> 'd"
  sim_k :: "'d tensor \<Rightarrow> nat \<Rightarrow> nat \<Rightarrow> real"
  dist_k :: "'d tensor \<Rightarrow> nat \<Rightarrow> nat \<Rightarrow> real"
  mse_k :: "'d tensor \<Rightarrow> 'd tensor \<Rightarrow> 'd"
  tokens_k :: "'d tensor \<Rightarrow> 'd"

text \<open>A Python value that is a float or a tensor (the running loss starts as \<^verbatim>\<open>0.0\<close>).\<close>

datatype 'd pyval = PyFloat real | Tensor "'d tensor"

text \<open>Type promotion of two floating dtypes.\<close>

definition promote :: "dtype \<Rightarrow> dtype \<Rightarrow> dtype" where
  "promote a b =
     (if a = b then a else if a = Float64 \<or> b = Float64 then Float64 else Float32)"

text \<open>
  Broadcasting, on shapes read from the trailing dimension: two extents are compatible
  when they are equal or one of them is 1.
\<close>

fun broadcast_rev :: "nat list \<Rightarrow> nat list \<Rightarrow> nat list option" where
  "broadcast_rev [] ys = Some ys"
| "broadcast_rev (x # xs) [] = Some (x # xs)"
| "broadcast_rev (x # xs) (y # ys) =
     (if x = y \<or> y = 1 then map_option ((#) x) (broadcast_rev xs ys)
      else if x = 1 then map_option ((#) y) (broadcast_rev xs ys)
      else None)"

definition broadcast_shapes :: "nat list \<Rightarrow> nat list \<Rightarrow> nat list option" where
  "broadcast_shapes a b = map_option rev (broadcast_rev (rev a) (rev b))"

text \<open>An elementwise binary operation \<^verbatim>\<open>x + y\<close>, \<^verbatim>\<open>x - y\<close> that makes a new tensor.\<close>

definition t_binop ::
  "('d tensor \<Rightarrow> 'd tensor \<Rightarrow> 'd) \<Rightarrow> 'd tensor \<Rightarrow> 'd tensor \<Rightarrow> error + 'd tensor" where
  "t_binop k x y =
     (case broadcast_shapes (shape x) (shape y) of
        None \<Rightarrow> Inl RuntimeError
      | Some s \<Rightarrow> Inr \<lparr>shape = s, dtype = promote (dtype x) (dtype y), dat = k x y\<rparr>)"

text \<open>
  The in-place forms \<^verbatim>\<open>x.add_(y)\<close>, \<^verbatim>\<open>x.sub_(y)\<close>, \<^verbatim>\<open>x -= y\<close>: the broadcast shape
  must be the shape of \<open>x\<close>, which keeps its dtype.
\<close>

definition t_binop_inplace ::
  "('d tensor \<Rightarrow> 'd tensor \<Rightarrow> 'd) \<Rightarrow> 'd tensor \<Rightarrow> 'd tensor \<Rightarrow> error + 'd tensor" where
  "t_binop_inplace k x y =
     (case broadcast_shapes (shape x) (shape y) of
        None \<Rightarrow> Inl RuntimeError
      | Some s \<Rightarrow> if s = shape x then Inr (x\<lparr>dat := k x y\<rparr>) else Inl RuntimeError)"

text \<open>\<^verbatim>\<open>x.mul(c)\<close> and \<^verbatim>\<open>x.mul_(c)\<close> for a Python float \<open>c\<close>.\<close>

definition t_scale :: "'d kernels \<Rightarrow> real \<Rightarrow> 'd tensor \<Rightarrow> 'd tensor" where
  "t_scale K c x = x\<lparr>dat := scale_k K c x\<rparr>"

text \<open>\<^verbatim>\<open>x.float()\<close>.\<close>

definition t_float :: "'d kernels \<Rightarrow> 'd tensor \<Rightarrow> 'd tensor" where
  "t_float K x = x\<lparr>dtype := Float32, dat := cast_k K Float32 x\<rparr>"

text \<open>\<^verbatim>\<open>torch.zeros_like(x)\<close>.\<close>

definition zeros_like :: "'d kernels \<Rightarrow> 'd tensor \<Rightarrow> 'd tensor" where
  "zeros_like K x = x\<lparr>dat := zeros_k K (shape x)\<rparr>"

text \<open>\<^verbatim>\<open>B, C, H, W = x.shape\<close>: ValueError unless there are four dimensions.\<close>

definition unpack4 :: "nat list \<Rightarrow> error + nat \<times> nat \<times> nat \<times> nat" where
  "unpack4 s = (case s of [b, c, h, w] \<Rightarrow> Inr (b, c, h, w) | _ \<Rightarrow> Inl ValueError)"

text \<open>
  \<^verbatim>\<open>F.interpolate(x, size=(h, w), mode=...)\<close> for the modes \<^verbatim>\<open>area\<close> and
  \<^verbatim>\<open>bicubic\<close>: a four-dimensional input, resampled in its last two dimensions.  Empty
  channel and spatial extents are rejected.
\<close>

definition interpolate ::
  "'d kernels \<Rightarrow> interp_mode \<Rightarrow> nat \<times> nat \<Rightarrow> 'd tensor \<Rightarrow> error + 'd tensor" where
  "interpolate K mode hw x =
     (case shape x of
        [b, c, h, w] \<Rightarrow>
          if c = 0 \<or> h = 0 \<or> w = 0 \<or> fst hw = 0 \<or> snd hw = 0 then Inl RuntimeError
          else Inr \<lparr>shape = [b, c, fst hw, snd hw], dtype = dtype x,
                    dat = interp_k K mode hw x\<rparr>
      | _ \<Rightarrow> Inl ValueError)"

text \<open>
  \<^verbatim>\<open>F.mse_loss(x, y)\<close>: a zero-dimensional tensor; operands of different sizes are
  broadcast.
\<close>

definition mse_loss :: "'d kernels \<Rightarrow> 'd tensor \<Rightarrow> 'd tensor \<Rightarrow> error + 'd tensor" where
  "mse_loss K x y =
     (case broadcast_shapes (shape x) (shape y) of
        None \<Rightarrow> Inl RuntimeError
      | Some s \<Rightarrow> Inr \<lparr>shape = [], dtype = promote (dtype x) (dtype y), dat = mse_k K x y\<rparr>)"

text \<open>\<^verbatim>\<open>torch.argmax\<close> along a row: the first maximum.\<close>

definition argmax_first :: "real list \<Rightarrow> nat" where
  "argmax_first xs = argmin_first (map uminus xs)"

text \<open>
  \<^verbatim>\<open>idx.bincount(minlength=n).float()\<close>: the number of occurrences of every value
  below the larger of \<open>n\<close> and the largest index plus one.
\<close>

definition bincount :: "nat list \<Rightarrow> nat \<Rightarrow> real list" where
  "bincount idx minlength =
     map (\<lambda>v. real (count_list idx v))
       [0..<max minlength (fold (\<lambda>i m. max (Suc i) m) idx 0)]"

subsection \<open>The quantizer module and its state\<close>

text \<open>
  The fields \<^verbatim>\<open>__init__\<close> sets.  All refinement units of a module are of one kind:
  \<^verbatim>\<open>Phi(Cvae, quant_resi)\<close> when \<^verbatim>\<open>abs(quant_resi) > 1e-6\<close>, else
  \<^verbatim>\<open>nn.Identity()\<close>; a unit is named by its index.  The learned weights (embedding table,
  convolutions) are inside the kernels.  \<open>training\<close> is the flag of \<^verbatim>\<open>nn.Module\<close>.
\<close>

record vq_module =
  vocab_size :: nat
  Cvae :: nat
  using_znorm :: bool
  beta :: real
  v_patch_nums :: "nat list"
  quant_resi_ratio :: real
  quant_resi :: phi_policy
  training :: bool

text \<open>The state \<^verbatim>\<open>forward\<close> mutates: the buffer \<^verbatim>\<open>ema_vocab_hit_SV\<close> and the counter.\<close>

record vq_state =
  ema_vocab_hit_SV :: "real list list"
  record_hit :: nat

text \<open>
  The distributed runtime, an external collaborator: \<^verbatim>\<open>dist.initialized()\<close>, the sum
  over the processes that \<^verbatim>\<open>tdist.all_reduce\<close> leaves in its argument once the handle
  has been waited for, and the outcome of \<^verbatim>\<open>tdist.get_world_size()\<close>, which may raise.
\<close>

record dist_env =
  initialized :: bool
  all_reduce :: "real list \<Rightarrow> real list"
  get_world_size :: "error + nat"

text \<open>
  \<^verbatim>\<open>nn.Conv2d(embed_dim, embed_dim, 3, stride=1, padding=1)\<close> of unit \<open>u\<close>: the input has
  \<open>embed_dim\<close> channels and keeps its shape.
\<close>

definition conv2d :: "'d kernels \<Rightarrow> nat \<Rightarrow> nat \<Rightarrow> 'd tensor \<Rightarrow> error + 'd tensor" where
  "conv2d K embed_dim u x =
     (case shape x of
        [b, c, h, w] \<Rightarrow>
          if c = embed_dim then Inr (x\<lparr>dat := conv_k K u x\<rparr>) else Inl RuntimeError
      | [c, h, w] \<Rightarrow>
          if c = embed_dim then Inr (x\<lparr>dat := conv_k K u x\<rparr>) else Inl RuntimeError
      | _ \<Rightarrow> Inl RuntimeError)"

text \<open>\<^verbatim>\<open>Phi.forward\<close>, with \<^verbatim>\<open>resi_ratio = abs(quant_resi)\<close>.\<close>

definition Phi_forward :: "'d kernels \<Rightarrow> vq_module \<Rightarrow> nat \<Rightarrow> 'd tensor \<Rightarrow> error + 'd tensor" where
  "Phi_forward K m u h_BChw =
     bind_r (conv2d K (Cvae m) u h_BChw) (\<lambda>c.
       t_binop (add_k K) (t_scale K (1 - \<bar>quant_resi_ratio m\<bar>) h_BChw)
         (t_scale K \<bar>quant_resi_ratio m\<bar> c))"

text \<open>Calling unit \<open>u\<close>: \<^verbatim>\<open>Phi\<close> or \<^verbatim>\<open>nn.Identity\<close>.\<close>

definition unit_call :: "'d kernels \<Rightarrow> vq_module \<Rightarrow> nat \<Rightarrow> 'd tensor \<Rightarrow> error + 'd tensor" where
  "unit_call K m u h =
     (if \<bar>quant_resi_ratio m\<bar> > 1 / 1000000 then Phi_forward K m u h else Inr h)"

text \<open>
  \<^verbatim>\<open>si / (SN - 1)\<close> on Python integers: true division, the quotient rounded to a
  float; ZeroDivisionError for \<open>SN = 1\<close>.
\<close>

definition scale_pos :: "nat \<Rightarrow> int \<Rightarrow> error + real" where
  "scale_pos si SN =
     (if SN - 1 = 0 then Inl ZeroDivisionError
      else Inr (fl 53 (real si / real_of_int (SN - 1))))"

text \<open>\<^verbatim>\<open>self.quant_resi[si / (SN - 1)]\<close>: the unit for scale \<open>si\<close> of \<open>SN\<close>.\<close>

definition quant_resi_get :: "vq_module \<Rightarrow> nat \<Rightarrow> int \<Rightarrow> error + nat" where
  "quant_resi_get m si SN = bind_r (scale_pos si SN) (phi_getitem (quant_resi m))"

subsection \<open>Nearest-code lookup and the contribution of one scale\<close>

text \<open>
  Finding the nearest embedding (lines 110-139 of \<^verbatim>\<open>forward\<close>, 262-281 of
  \<^verbatim>\<open>f_to_idxBl_or_fhat\<close>).  The residual is area-downsampled unless the scale is the
  last, then laid out as \<open>N\<close> rows of \<open>C\<close> channels (\<^verbatim>\<open>.permute(0, 2, 3, 1).reshape(-1, C)\<close>).
  \<open>sim_k z n v\<close> is entry \<open>(n, v)\<close> of the product of the normalised rows with the
  normalised table, \<open>dist_k z n v\<close> entry \<open>(n, v)\<close> of \<^verbatim>\<open>d_no_grad\<close>; the product needs
  \<open>C = Cvae\<close>, and the reduction a non-empty vocabulary.
\<close>

definition find_nearest ::
  "'d kernels \<Rightarrow> vq_module \<Rightarrow> nat \<Rightarrow> bool \<Rightarrow> nat \<times> nat \<Rightarrow> 'd tensor \<Rightarrow> error + nat list" where
  "find_nearest K m C resample hw f_rest =
     bind_r (if resample then interpolate K Area hw f_rest else Inr f_rest) (\<lambda>z.
       if C = 0 \<or> prod_list (shape z) mod C \<noteq> 0 then Inl RuntimeError
       else if C \<noteq> Cvae m then Inl RuntimeError
       else if vocab_size m = 0 then Inl IndexError
       else Inr (map (\<lambda>n. if using_znorm m
                           then argmax_first (map (sim_k K z n) [0..<vocab_size m])
                           else argmin_first (map (dist_k K z n) [0..<vocab_size m]))
                   [0..<prod_list (shape z) div C]))"

text \<open>
  \<^verbatim>\<open>self.embedding(idx_N.view(B, ph, pw)).permute(0, 3, 1, 2)\<close>: the view needs
  \<open>B * ph * pw\<close> indices, the lookup indices below \<open>vocab_size\<close>; the table is float32.
\<close>

definition embed_BChw ::
  "'d kernels \<Rightarrow> vq_module \<Rightarrow> nat list \<Rightarrow> nat \<Rightarrow> nat \<times> nat \<Rightarrow> error + 'd tensor" where
  "embed_BChw K m idx B hw =
     (if length idx \<noteq> B * fst hw * snd hw then Inl RuntimeError
      else if list_ex (\<lambda>i. vocab_size m \<le> i) idx then Inl IndexError
      else Inr \<lparr>shape = [B, Cvae m, fst hw, snd hw], dtype = Float32, dat = embed_k K idx\<rparr>)"

text \<open>
  The part of a scale that \<^verbatim>\<open>forward\<close> and \<^verbatim>\<open>f_to_idxBl_or_fhat\<close> share: the indices
  \<^verbatim>\<open>idx_N\<close> and the refined contribution \<^verbatim>\<open>h_BChw\<close>, upsampled (bicubic) to the full
  resolution unless the scale is the last.
\<close>

definition scale_contribution ::
  "'d kernels \<Rightarrow> vq_module \<Rightarrow> nat \<times> nat \<times> nat \<times> nat \<Rightarrow> nat \<Rightarrow> nat \<Rightarrow> nat \<times> nat \<Rightarrow> 'd tensor \<Rightarrow>
     error + nat list \<times> 'd tensor" where
  "scale_contribution K m BCHW SN si hw f_rest =
     (case BCHW of (B, C, H, W) \<Rightarrow>
        bind_r (find_nearest K m C (int si \<noteq> int SN - 1) hw f_rest) (\<lambda>idx_N.
        bind_r (embed_BChw K m idx_N B hw) (\<lambda>e.
        bind_r (if int si \<noteq> int SN - 1 then interpolate K Bicubic (H, W) e else Inr e) (\<lambda>h.
        bind_r (quant_resi_get m si (int SN)) (\<lambda>u.
        bind_r (unit_call K m u h) (\<lambda>h_BChw. Inr (idx_N, h_BChw)))))))"

subsection \<open>The usage histogram\<close>

text \<open>
  Broadcasting a one-dimensional operand onto a row of \<open>n\<close> entries, as \<^verbatim>\<open>copy_\<close> and
  \<^verbatim>\<open>add_\<close> do.
\<close>

definition expand_to :: "nat \<Rightarrow> real list \<Rightarrow> real list option" where
  "expand_to n xs =
     (if length xs = n then Some xs
      else if length xs = 1 then Some (replicate n (hd xs))
      else None)"

text \<open>
  Lines 163-168: the new value of the row \<^verbatim>\<open>ema_vocab_hit_SV[si]\<close> for the counter
  value \<open>rh\<close>, and the exception if one is raised (after \<^verbatim>\<open>mul_\<close> has scaled the row).
\<close>

definition ema_update :: "nat \<Rightarrow> real list \<Rightarrow> real list \<Rightarrow> real list \<times> error option" where
  "ema_update rh row hit_V =
     (if rh = 0 then
        (case expand_to (length row) hit_V of
           None \<Rightarrow> (row, Some RuntimeError)
         | Some h \<Rightarrow> (h, None))
      else if rh < 100 then
        (case expand_to (length row) (map (\<lambda>x. x * 0.1) hit_V) of
           None \<Rightarrow> (map (\<lambda>x. x * 0.9) row, Some RuntimeError)
         | Some h \<Rightarrow> (map2 (+) (map (\<lambda>x. x * 0.9) row) h, None))
      else
        (case expand_to (length row) (map (\<lambda>x. x * 0.01) hit_V) of
           None \<Rightarrow> (map (\<lambda>x. x * 0.99) row, Some RuntimeError)
         | Some h \<Rightarrow> (map2 (+) (map (\<lambda>x. x * 0.99) row) h, None)))"

text \<open>Lines 163-169 on the state: row \<open>si\<close> is updated, then the counter incremented.\<close>

definition ema_record :: "vq_state \<Rightarrow> nat \<Rightarrow> real list \<Rightarrow> vq_state \<times> error option" where
  "ema_record st si hit_V =
     (if length (ema_vocab_hit_SV st) \<le> si then (st, Some IndexError)
      else
        (case ema_update (record_hit st) (ema_vocab_hit_SV st ! si) hit_V of
           (row, Some e) \<Rightarrow>
             (st\<lparr>ema_vocab_hit_SV := (ema_vocab_hit_SV st)[si := row]\<rparr>, Some e)
         | (row, None) \<Rightarrow>
             (st\<lparr>ema_vocab_hit_SV := (ema_vocab_hit_SV st)[si := row],
                 record_hit := record_hit st + 1\<rparr>, None)))"

text \<open>
  Lines 178-183: the margin.  \<open>numel\<close> and \<open>C\<close> are \<^verbatim>\<open>f_BChw.numel()\<close> and
  \<^verbatim>\<open>f_BChw.shape[1]\<close>.
\<close>

definition usage_margin :: "dist_env \<Rightarrow> vq_module \<Rightarrow> nat \<Rightarrow> nat \<Rightarrow> error + real" where
  "usage_margin env m numel C =
     bind_r (get_world_size env) (\<lambda>world_size.
       if C = 0 then Inl ZeroDivisionError
       else if vocab_size m = 0 then Inl ZeroDivisionError
       else Inr (real world_size * (real numel / real C) / real (vocab_size m) * 0.08))"

text \<open>
  Line 187 for one row: \<^verbatim>\<open>(row >= margin).float().mean().item() * 100\<close>.  The mean of an
  empty row is NaN, written \<open>None\<close>.
\<close>

definition usage_of_row :: "real \<Rightarrow> real list \<Rightarrow> real option" where
  "usage_of_row margin row =
     (if row = [] then None
      else Some (real (length (filter (\<lambda>x. x \<ge> margin) row)) / real (length row) * 100))"

definition usages_of :: "vq_module \<Rightarrow> vq_state \<Rightarrow> real \<Rightarrow> error + real option list" where
  "usages_of m st margin =
     (if length (ema_vocab_hit_SV st) < length (v_patch_nums m) then Inl IndexError
      else Inr (map (\<lambda>si. usage_of_row margin (ema_vocab_hit_SV st ! si))
                  [0..<length (v_patch_nums m)]))"

subsection \<open>forward\<close>

text \<open>
  \<^verbatim>\<open>mean_vq_loss += term\<close>: on the Python float \<^verbatim>\<open>0.0\<close> it makes a new tensor, on a
  tensor it adds in place.
\<close>

definition loss_add :: "'d kernels \<Rightarrow> 'd pyval \<Rightarrow> 'd tensor \<Rightarrow> error + 'd pyval" where
  "loss_add K l t =
     (case l of
        PyFloat c \<Rightarrow> Inr (Tensor (t\<lparr>dat := adds_k K c t\<rparr>))
      | Tensor x \<Rightarrow> bind_r (t_binop_inplace (add_k K) x t) (\<lambda>y. Inr (Tensor y)))"

text \<open>\<^verbatim>\<open>mean_vq_loss *= 1.0 / SN\<close>.\<close>

definition loss_scale :: "'d kernels \<Rightarrow> 'd pyval \<Rightarrow> nat \<Rightarrow> error + 'd pyval" where
  "loss_scale K l SN =
     (if SN = 0 then Inl ZeroDivisionError
      else Inr (case l of
                  PyFloat c \<Rightarrow> PyFloat (c * (1 / real SN))
                | Tensor x \<Rightarrow> Tensor (t_scale K (1 / real SN) x)))"

text \<open>
  Lines 171-173: the loss term of a scale.  \<^verbatim>\<open>f_no_grad\<close> has the value of
  \<^verbatim>\<open>f_BChw\<close>.
\<close>

definition loss_term :: "'d kernels \<Rightarrow> vq_module \<Rightarrow> 'd tensor \<Rightarrow> 'd tensor \<Rightarrow> error + 'd tensor" where
  "loss_term K m f_hat f_BChw =
     bind_r (mse_loss K f_hat f_BChw) (\<lambda>l1.
     bind_r (mse_loss K f_hat f_BChw) (\<lambda>l2.
       t_binop (add_k K) (t_scale K (beta m) l1) l2))"

text \<open>
  One turn of the loop of \<^verbatim>\<open>forward\<close> (lines 108-173) for scale \<open>si\<close> with patch number
  \<open>pn\<close>, on the loop variables \<^verbatim>\<open>f_rest\<close>, \<^verbatim>\<open>f_hat\<close>, \<^verbatim>\<open>mean_vq_loss\<close> and the
  state.  The state is returned also when an exception is raised: what was written to
  the buffer before stays written.  The accumulator \<^verbatim>\<open>vocab_hit_V\<close> is never read and
  is left out.
\<close>

definition forward_scale ::
  "'d kernels \<Rightarrow> dist_env \<Rightarrow> vq_module \<Rightarrow> 'd tensor \<Rightarrow> nat \<times> nat \<times> nat \<times> nat \<Rightarrow> nat \<Rightarrow> nat \<times> nat \<Rightarrow>
     vq_state \<times> 'd tensor \<times> 'd tensor \<times> 'd pyval \<Rightarrow>
     vq_state \<times> (error + 'd tensor \<times> 'd tensor \<times> 'd pyval)" where
  "forward_scale K env m f_BChw BCHW SN sipn s =
     (case (sipn, s) of ((si, pn), (st, f_rest, f_hat, mean_vq_loss)) \<Rightarrow>
        (case bind_r (scale_contribution K m BCHW SN si (pn, pn) f_rest) (\<lambda>(idx_N, h_BChw).
              bind_r (t_binop (add_k K) f_hat h_BChw) (\<lambda>f_hat'.
              bind_r (t_binop_inplace (sub_k K) f_rest h_BChw) (\<lambda>f_rest'.
                Inr (bincount idx_N (vocab_size m), f_rest', f_hat')))) of
           Inl e \<Rightarrow> (st, Inl e)
         | Inr (hit_V, f_rest', f_hat') \<Rightarrow>
             (case (if training m \<and> initialized env
                    then ema_record st si (all_reduce env hit_V) else (st, None)) of
                (st', Some e) \<Rightarrow> (st', Inl e)
              | (st', None) \<Rightarrow>
                  (st', bind_r (loss_term K m f_hat' f_BChw) (\<lambda>t.
                        bind_r (loss_add K mean_vq_loss t) (\<lambda>l.
                          Inr (f_rest', f_hat', l)))))))"

fun forward_loop ::
  "'d kernels \<Rightarrow> dist_env \<Rightarrow> vq_module \<Rightarrow> 'd tensor \<Rightarrow> nat \<times> nat \<times> nat \<times> nat \<Rightarrow> nat \<Rightarrow> (nat \<times> nat) list \<Rightarrow>
     vq_state \<times> 'd tensor \<times> 'd tensor \<times> 'd pyval \<Rightarrow>
     vq_state \<times> (error + 'd tensor \<times> 'd tensor \<times> 'd pyval)" where
  "forward_loop K env m f_BChw BCHW SN [] (st, vars) = (st, Inr vars)"
| "forward_loop K env m f_BChw BCHW SN (sipn # rest) (st, vars) =
     (case forward_scale K env m f_BChw BCHW SN sipn (st, vars) of
        (st', Inl e) \<Rightarrow> (st', Inl e)
      | (st', Inr vars') \<Rightarrow> forward_loop K env m f_BChw BCHW SN rest (st', vars'))"

text \<open>Lines 93-95: an input that is not float32 is cast.\<close>

definition cast_input :: "'d kernels \<Rightarrow> 'd tensor \<Rightarrow> 'd tensor" where
  "cast_input K f_in = (if dtype f_in \<noteq> Float32 then t_float K f_in else f_in)"

text \<open>
  Lines 175-192, after the loop: the mean loss, the straight-through output
  \<^verbatim>\<open>(f_hat.data - f_no_grad).add_(f_BChw)\<close>, the margin and the usages.
\<close>

definition forward_finish ::
  "'d kernels \<Rightarrow> dist_env \<Rightarrow> vq_module \<Rightarrow> vq_state \<Rightarrow> 'd tensor \<Rightarrow> nat \<Rightarrow>
     'd tensor \<times> 'd tensor \<times> 'd pyval \<Rightarrow> bool \<Rightarrow>
     error + 'd tensor \<times> real option list option \<times> 'd pyval" where
  "forward_finish K env m st f_BChw C vars ret_usages =
     (case vars of (f_rest, f_hat, mean_vq_loss) \<Rightarrow>
        bind_r (loss_scale K mean_vq_loss (length (v_patch_nums m))) (\<lambda>loss.
        bind_r (t_binop (sub_k K) f_hat f_BChw) (\<lambda>d.
        bind_r (t_binop_inplace (add_k K) d f_BChw) (\<lambda>out.
        bind_r (usage_margin env m (prod_list (shape f_BChw)) C) (\<lambda>margin.
        bind_r (if ret_usages
                then bind_r (usages_of m st margin) (\<lambda>us. Inr (Some us))
                else Inr None) (\<lambda>usages.
          Inr (out, usages, loss)))))))"

text \<open>
  \<^verbatim>\<open>VectorQuantizer2.forward\<close>.  The result is the state after the call and either the
  exception or the triple \<^verbatim>\<open>(f_hat, usages, mean_vq_loss)\<close>.
\<close>

definition forward ::
  "'d kernels \<Rightarrow> dist_env \<Rightarrow> vq_module \<Rightarrow> vq_state \<Rightarrow> 'd tensor \<Rightarrow> bool \<Rightarrow>
     vq_state \<times> (error + 'd tensor \<times> real option list option \<times> 'd pyval)" where
  "forward K env m st f_in ret_usages =
     (case unpack4 (shape (cast_input K f_in)) of
        Inl e \<Rightarrow> (st, Inl e)
      | Inr (B, C, H, W) \<Rightarrow>
          (case forward_loop K env m (cast_input K f_in) (B, C, H, W) (length (v_patch_nums m))
                  (List.enumerate 0 (v_patch_nums m))
                  (st, cast_input K f_in, zeros_like K (cast_input K f_in), PyFloat 0) of
             (st', Inl e) \<Rightarrow> (st', Inl e)
           | (st', Inr vars) \<Rightarrow>
               (st', forward_finish K env m st' (cast_input K f_in) C vars ret_usages)))"

subsection \<open>f_to_idxBl_or_fhat\<close>

text \<open>
  An entry of a caller-supplied pyramid: an integer \<open>pn\<close> or a pair \<open>(ph, pw)\<close>.
\<close>

datatype patch_num = PInt nat | PPair nat nat

fun patch_hw :: "patch_num \<Rightarrow> nat \<times> nat" where
  "patch_hw (PInt pn) = (pn, pn)"
| "patch_hw (PPair ph pw) = (ph, pw)"

text \<open>
  \<^verbatim>\<open>v_patch_nums or self.v_patch_nums\<close>: the module's pyramid when the caller passes
  \<^verbatim>\<open>None\<close> or an empty sequence.
\<close>

definition patch_hws_of :: "vq_module \<Rightarrow> patch_num list option \<Rightarrow> (nat \<times> nat) list" where
  "patch_hws_of m arg =
     (case arg of
        None \<Rightarrow> map (\<lambda>pn. (pn, pn)) (v_patch_nums m)
      | Some ps \<Rightarrow> if ps = [] then map (\<lambda>pn. (pn, pn)) (v_patch_nums m) else map patch_hw ps)"

text \<open>An index tensor of shape \<open>(B, L)\<close>: \<open>B\<close> rows of \<open>L\<close> code indices.\<close>

record idx_Bl =
  idx_B :: nat
  idx_L :: nat
  idx_dat :: "nat list"

text \<open>
  The loop of \<^verbatim>\<open>f_to_idxBl_or_fhat\<close> (lines 260-298); an entry of the result is a
  clone of \<^verbatim>\<open>f_hat\<close> or the indices of the scale reshaped to \<open>(B, ph * pw)\<close>.
\<close>

fun f_to_loop ::
  "'d kernels \<Rightarrow> vq_module \<Rightarrow> bool \<Rightarrow> nat \<times> nat \<times> nat \<times> nat \<Rightarrow> nat \<Rightarrow> (nat \<times> nat \<times> nat) list \<Rightarrow>
     'd tensor \<times> 'd tensor \<times> ('d tensor + idx_Bl) list \<Rightarrow> error + ('d tensor + idx_Bl) list" where
  "f_to_loop K m to_fhat BCHW SN [] (f_rest, f_hat, acc) = Inr acc"
| "f_to_loop K m to_fhat BCHW SN ((si, ph, pw) # rest) (f_rest, f_hat, acc) =
     bind_r (scale_contribution K m BCHW SN si (ph, pw) f_rest) (\<lambda>(idx_N, h_BChw).
     bind_r (t_binop_inplace (add_k K) f_hat h_BChw) (\<lambda>f_hat'.
     bind_r (t_binop_inplace (sub_k K) f_rest h_BChw) (\<lambda>f_rest'.
       f_to_loop K m to_fhat BCHW SN rest
         (f_rest', f_hat',
          acc @ [if to_fhat then Inl f_hat'
                 else Inr \<lparr>idx_B = fst BCHW, idx_L = ph * pw, idx_dat = idx_N\<rparr>]))))"

text \<open>
  \<^verbatim>\<open>VectorQuantizer2.f_to_idxBl_or_fhat\<close>.  \<^verbatim>\<open>patch_hws[-1]\<close> raises IndexError on an
  empty pyramid; the assertion is checked before the loop.
\<close>

definition f_to_idxBl_or_fhat ::
  "'d kernels \<Rightarrow> vq_module \<Rightarrow> 'd tensor \<Rightarrow> bool \<Rightarrow> patch_num list option \<Rightarrow>
     error + ('d tensor + idx_Bl) list" where
  "f_to_idxBl_or_fhat K m f_BChw to_fhat arg =
     bind_r (unpack4 (shape f_BChw)) (\<lambda>(B, C, H, W).
       let patch_hws = patch_hws_of m arg in
       if patch_hws = [] then Inl IndexError
       else if \<not> (fst (last patch_hws) = H \<and> snd (last patch_hws) = W) then Inl AssertionError
       else f_to_loop K m to_fhat (B, C, H, W) (length patch_hws)
              (List.enumerate 0 patch_hws) (f_BChw, zeros_like K f_BChw, []))"

subsection \<open>Teacher-forcing and masked inputs\<close>

text \<open>
  \<^verbatim>\<open>self.embedding(gt).transpose_(1, 2).view(B, C, pn, pn)\<close> with \<open>C = Cvae\<close>: the
  lookup needs indices below \<open>vocab_size\<close>; the view is taken to succeed exactly when
  the index tensor is \<open>B\<close> by \<open>pn * pn\<close>.
\<close>

definition embed_view :: "'d kernels \<Rightarrow> vq_module \<Rightarrow> idx_Bl \<Rightarrow> nat \<Rightarrow> nat \<Rightarrow> error + 'd tensor" where
  "embed_view K m gt B pn =
     (if list_ex (\<lambda>i. vocab_size m \<le> i) (idx_dat gt) then Inl IndexError
      else if idx_B gt \<noteq> B \<or> idx_L gt \<noteq> pn * pn then Inl RuntimeError
      else Inr \<lparr>shape = [B, Cvae m, pn, pn], dtype = Float32, dat = embed_k K (idx_dat gt)\<rparr>)"

text \<open>
  \<^verbatim>\<open>x.view(B, C, -1).transpose(1, 2)\<close> on a \<open>(B, C, h, w)\<close> tensor: the token sequence of
  shape \<open>(B, h * w, C)\<close>.  The \<open>-1\<close> cannot be inferred for an empty tensor.
\<close>

definition tokens_BLC :: "'d kernels \<Rightarrow> 'd tensor \<Rightarrow> error + 'd tensor" where
  "tokens_BLC K x =
     (case shape x of
        [b, c, h, w] \<Rightarrow>
          if b * c = 0 then Inl RuntimeError
          else Inr \<lparr>shape = [b, h * w, c], dtype = dtype x, dat = tokens_k K x\<rparr>
      | _ \<Rightarrow> Inl RuntimeError)"

text \<open>
  \<^verbatim>\<open>torch.cat(ts, dim=1)\<close> of token sequences, kept as the list of its blocks: block
  \<open>j\<close> occupies the positions of dimension 1 from \<open>cat_offset\<close> on, for the length of
  the block.
\<close>

record 'd cat_BLC =
  cat_shape :: "nat list"
  cat_parts :: "'d tensor list"

definition torch_cat_dim1 :: "'d tensor list \<Rightarrow> error + 'd cat_BLC" where
  "torch_cat_dim1 ts =
     (if ts = [] then Inl RuntimeError
      else
        (case shape (hd ts) of
           [b, l, c] \<Rightarrow>
             if list_all (\<lambda>t. case shape t of [b', l', c'] \<Rightarrow> b' = b \<and> c' = c | _ \<Rightarrow> False) ts
             then Inr \<lparr>cat_shape = [b, sum_list (map (\<lambda>t. shape t ! 1) ts), c], cat_parts = ts\<rparr>
             else Inl RuntimeError
         | _ \<Rightarrow> Inl RuntimeError))"

definition cat_offset :: "'d cat_BLC \<Rightarrow> nat \<Rightarrow> nat" where
  "cat_offset c j = sum_list (map (\<lambda>t. shape t ! 1) (take j (cat_parts c)))"

text \<open>
  One turn of the loop of \<^verbatim>\<open>idxBl_to_ns_input\<close> (lines 313-327), on \<^verbatim>\<open>f_hat\<close> and
  \<^verbatim>\<open>pn_next\<close>; it yields the segment appended to \<^verbatim>\<open>next_scales\<close>.
\<close>

definition ns_scale ::
  "'d kernels \<Rightarrow> vq_module \<Rightarrow> idx_Bl list \<Rightarrow> nat \<Rightarrow> nat \<Rightarrow> nat \<Rightarrow> nat \<Rightarrow> 'd tensor \<times> nat \<Rightarrow>
     error + 'd tensor \<times> nat \<times> 'd tensor" where
  "ns_scale K m gt_ms_idx_Bl B HW SN si s =
     (case s of (f_hat, pn_next) \<Rightarrow>
        if length gt_ms_idx_Bl \<le> si then Inl IndexError
        else
          bind_r (embed_view K m (gt_ms_idx_Bl ! si) B pn_next) (\<lambda>e.
          bind_r (interpolate K Bicubic (HW, HW) e) (\<lambda>h_BChw.
          bind_r (quant_resi_get m si (int SN)) (\<lambda>u.
          bind_r (unit_call K m u h_BChw) (\<lambda>r.
          bind_r (t_binop_inplace (add_k K) f_hat r) (\<lambda>f_hat'.
            if length (v_patch_nums m) \<le> si + 1 then Inl IndexError
            else
              bind_r (interpolate K Area
                        (v_patch_nums m ! (si + 1), v_patch_nums m ! (si + 1)) f_hat') (\<lambda>a.
              bind_r (tokens_BLC K a) (\<lambda>seg.
                Inr (f_hat', v_patch_nums m ! (si + 1), seg)))))))))"

fun ns_loop ::
  "'d kernels \<Rightarrow> vq_module \<Rightarrow> idx_Bl list \<Rightarrow> nat \<Rightarrow> nat \<Rightarrow> nat \<Rightarrow> nat list \<Rightarrow>
     'd tensor \<times> nat \<Rightarrow> 'd tensor list \<Rightarrow> error + 'd tensor list" where
  "ns_loop K m gt B HW SN [] s next_scales = Inr next_scales"
| "ns_loop K m gt B HW SN (si # sis) s next_scales =
     bind_r (ns_scale K m gt B HW SN si s) (\<lambda>(f_hat', pn', seg).
       ns_loop K m gt B HW SN sis (f_hat', pn') (next_scales @ [seg]))"

text \<open>
  \<^verbatim>\<open>VectorQuantizer2.idxBl_to_ns_input\<close>: \<open>None\<close> when no segment was made, else the
  concatenation of the segments.
\<close>

definition idxBl_to_ns_input ::
  "'d kernels \<Rightarrow> vq_module \<Rightarrow> idx_Bl list \<Rightarrow> error + 'd cat_BLC option" where
  "idxBl_to_ns_input K m gt_ms_idx_Bl =
     (if gt_ms_idx_Bl = [] then Inl IndexError
      else if v_patch_nums m = [] then Inl IndexError
      else
        (let B = idx_B (hd gt_ms_idx_Bl); C = Cvae m; HW = last (v_patch_nums m);
             SN = length (v_patch_nums m);
             f_hat = \<lparr>shape = [B, C, HW, HW], dtype = Float32, dat = zeros_k K [B, C, HW, HW]\<rparr>
         in bind_r (ns_loop K m gt_ms_idx_Bl B HW SN [0..<SN - 1]
                      (f_hat, hd (v_patch_nums m)) []) (\<lambda>next_scales.
              if next_scales = [] then Inr None
              else bind_r (torch_cat_dim1 next_scales) (\<lambda>c. Inr (Some c)))))"








subsection \<open>The decode steps\<close>

text \<open>
  \<^verbatim>\<open>get_next_autoregressive_input\<close> and \<^verbatim>\<open>get_next_mask_input\<close>.  The first
  component of the result is the content of the caller's tensor \<^verbatim>\<open>f_hat\<close> after the
  call, the second the exception or the pair returned.
\<close>

definition get_next_autoregressive_input ::
  "'d kernels \<Rightarrow> vq_module \<Rightarrow> nat \<Rightarrow> int \<Rightarrow> 'd tensor \<Rightarrow> 'd tensor \<Rightarrow>
     'd tensor \<times> (error + 'd tensor \<times> 'd tensor)" where
  "get_next_autoregressive_input K m si SN f_hat h_BChw =
     (if v_patch_nums m = [] then (f_hat, Inl IndexError)
      else
        (let HW = last (v_patch_nums m) in
         if int si \<noteq> SN - 1 then
           (case bind_r (quant_resi_get m si SN) (\<lambda>u.
                 bind_r (interpolate K Bicubic (HW, HW) h_BChw) (\<lambda>up.
                 bind_r (unit_call K m u up) (\<lambda>h.
                   t_binop_inplace (add_k K) f_hat h))) of
              Inl e \<Rightarrow> (f_hat, Inl e)
            | Inr f_hat' \<Rightarrow>
                (f_hat',
                 if length (v_patch_nums m) \<le> si + 1 then Inl IndexError
                 else
                   bind_r (interpolate K Area
                             (v_patch_nums m ! (si + 1), v_patch_nums m ! (si + 1)) f_hat')
                     (\<lambda>nxt. Inr (f_hat', nxt))))
         else
           (case bind_r (quant_resi_get m si SN) (\<lambda>u.
                 bind_r (unit_call K m u h_BChw) (\<lambda>h.
                   t_binop_inplace (add_k K) f_hat h)) of
              Inl e \<Rightarrow> (f_hat, Inl e)
            | Inr f_hat' \<Rightarrow> (f_hat', Inr (f_hat', f_hat')))))"

definition get_next_mask_input ::
  "'d kernels \<Rightarrow> vq_module \<Rightarrow> nat \<Rightarrow> int \<Rightarrow> 'd tensor \<Rightarrow> 'd tensor \<Rightarrow>
     'd tensor \<times> (error + 'd tensor \<times> 'd tensor)" where
  "get_next_mask_input K m si SN f_hat h_BChw =
     (f_hat,
      if v_patch_nums m = [] then Inl IndexError
      else
        (let HW = last (v_patch_nums m) in
         bind_r (quant_resi_get m si SN) (\<lambda>u.
         bind_r (interpolate K Bicubic (HW, HW) h_BChw) (\<lambda>up.
         bind_r (unit_call K m u up) (\<lambda>h.
           if length (v_patch_nums m) \<le> si then Inl IndexError
           else
             bind_r (interpolate K Area (v_patch_nums m ! si, v_patch_nums m ! si) f_hat)
               (\<lambda>f_hat_int.
             bind_r (interpolate K Area (v_patch_nums m ! si, v_patch_nums m ! si) h)
               (\<lambda>h_int. Inr (f_hat_int, h_int))))))))"

subsection \<open>Runs of histogram updates\<close>

text \<open>
  The counter is written by \<open>ema_record\<close> only, so the \<open>n\<close>-th update since
  construction is the \<open>n\<close>-th call of \<open>ema_record\<close>, whatever the scales and the calls of
  \<^verbatim>\<open>forward\<close> they belong to.  \<open>ema_updates st ups\<close> is the state after the updates
  \<open>ups\<close>, each a scale index with the hit counts it records.
\<close>

fun ema_updates :: "vq_state \<Rightarrow> (nat \<times> real list) list \<Rightarrow> vq_state" where
  "ema_updates st [] = st"
| "ema_updates st ((si, hit_V) # ups) = ema_updates (fst (ema_record st si hit_V)) ups"

text \<open>
  The buffer has one row per scale and one column per code (\<^verbatim>\<open>register_buffer\<close> in
  \<^verbatim>\<open>__init__\<close>); an update of a scale of the pyramid brings one count per code.
\<close>

definition wf_state :: "vq_module \<Rightarrow> vq_state \<Rightarrow> bool" where
  "wf_state m st =
     (length (ema_vocab_hit_SV st) = length (v_patch_nums m) \<and>
      list_all (\<lambda>row. length row = vocab_size m) (ema_vocab_hit_SV st))"

definition wf_update :: "vq_module \<Rightarrow> nat \<times> real list \<Rightarrow> bool" where
  "wf_update m up = (fst up < length (v_patch_nums m) \<and> length (snd up) = vocab_size m)"

text \<open>The two blends of lines 166 and 168 on a row and the hit counts.\<close>

definition blend :: "real \<Rightarrow> real \<Rightarrow> real list \<Rightarrow> real list \<Rightarrow> real list" where
  "blend a b old new = map2 (\<lambda>x y. x * a + y * b) old new"

subsection \<open>Invariant of the loop of forward\<close>

text \<open>
  What holds of the loop variables \<^verbatim>\<open>f_rest\<close>, \<^verbatim>\<open>f_hat\<close> and \<^verbatim>\<open>mean_vq_loss\<close>
  before and after every turn, for the (cast) input \<open>f_BChw\<close>: both tensors have the
  shape of the input and are float32, and the loss, once a tensor, is a float32 scalar.
\<close>

definition loop_inv :: "'d tensor \<Rightarrow> 'd tensor \<times> 'd tensor \<times> 'd pyval \<Rightarrow> bool" where
  "loop_inv f_BChw vars =
     (case vars of (f_rest, f_hat, l) \<Rightarrow>
        shape f_rest = shape f_BChw \<and> shape f_hat = shape f_BChw \<and>
        dtype f_rest = Float32 \<and> dtype f_hat = Float32 \<and>
        (case l of PyFloat c \<Rightarrow> True | Tensor t \<Rightarrow> shape t = [] \<and> dtype t = Float32))"

definition is_tensor :: "'d pyval \<Rightarrow> bool" where
  "is_tensor l = (case l of PyFloat c \<Rightarrow> False | Tensor t \<Rightarrow> True)"

subsection \<open>A small module\<close>

text \<open>
  A module with one code, one channel and the pyramid \<open>(1, 2)\<close>, with the refinement
  ratio 0.5 and one shared unit (\<^verbatim>\<open>share_quant_resi = 1\<close>); its histogram after
  construction; inputs of 2 by 2 and of 3 by 3 positions; a runtime that
  is not initialised, and one with a single process, whose reduction leaves the local
  counts.  With one code the nearest code is code 0 for every kernel.
\<close>

definition demo_module :: vq_module where
  "demo_module =
     \<lparr>vocab_size = 1, Cvae = 1, using_znorm = False, beta = 1 / 4, v_patch_nums = [1, 2],
       quant_resi_ratio = 1 / 2, quant_resi = PhiShared, training = True\<rparr>"

definition demo_state :: vq_state where
  "demo_state = \<lparr>ema_vocab_hit_SV = [[0], [0]], record_hit = 0\<rparr>"

definition demo_input :: "nat \<Rightarrow> dtype \<Rightarrow> 'd \<Rightarrow> 'd tensor" where
  "demo_input n dt d = \<lparr>shape = [1, 1, n, n], dtype = dt, dat = d\<rparr>"

definition env_off :: dist_env where
  "env_off = \<lparr>initialized = False, all_reduce = (\<lambda>h. h), get_world_size = Inr 1\<rparr>"

definition env_single :: dist_env where
  "env_single = \<lparr>initialized = True, all_reduce = (\<lambda>h. h), get_world_size = Inr 1\<rparr>"

subsection \<open>Valid configurations\<close>

text \<open>
  A policy with ticks has a tick for every unit, and at least one unit (for none,
  \<^verbatim>\<open>1 / 2 / K\<close> in its constructor raises ZeroDivisionError).  A module is valid when it has a code, a channel, a pyramid of at least two scales with
  positive patch numbers, and such a policy; an input is valid for it when it has
  \<open>Cvae\<close> channels and the resolution of the last scale.
\<close>

definition policy_ok :: "phi_policy \<Rightarrow> bool" where
  "policy_ok p =
     (case p of PhiShared \<Rightarrow> True | PhiPartiallyShared ts \<Rightarrow> ts \<noteq> [] | PhiNonShared ts \<Rightarrow> ts \<noteq> [])"

definition valid_module :: "vq_module \<Rightarrow> bool" where
  "valid_module m =
     (0 < vocab_size m \<and> 0 < Cvae m \<and> 2 \<le> length (v_patch_nums m) \<and>
      list_all (\<lambda>pn. 0 < pn) (v_patch_nums m) \<and> policy_ok (quant_resi m))"

definition valid_input :: "vq_module \<Rightarrow> 'd tensor \<Rightarrow> bool" where
  "valid_input m f =
     (case shape f of
        [B, C, H, W] \<Rightarrow> C = Cvae m \<and> H = last (v_patch_nums m) \<and> W = last (v_patch_nums m)
      | _ \<Rightarrow> False)"

text \<open>The reduction sums vectors of one length: its result has the length of its argument.\<close>

definition valid_env :: "dist_env \<Rightarrow> bool" where
  "valid_env env = (\<forall>h. length (all_reduce env h) = length h)"

subsection \<open>Exact kernels on one-element tensors\<close>

text \<open>
  Kernels for tensors of a single element (one sample, one channel, one position),
  computed exactly over the reals: resampling one position to one position and the
  layout changes keep the element, the table maps code \<open>v\<close> to \<open>v + 1\<close>, the convolution
  has centre weight 1 and bias 0.
\<close>

definition scalar_kernels :: "real kernels" where
  "scalar_kernels =
     \<lparr>cast_k = (\<lambda>dt x. dat x), zeros_k = (\<lambda>s. 0),
       add_k = (\<lambda>x y. dat x + dat y), sub_k = (\<lambda>x y. dat x - dat y),
       scale_k = (\<lambda>c x. c * dat x), adds_k = (\<lambda>c x. c + dat x),
       interp_k = (\<lambda>mode hw x. dat x), conv_k = (\<lambda>u x. dat x),
       embed_k = (\<lambda>idx. real (hd idx) + 1),
       sim_k = (\<lambda>z n v. dat z * (real v + 1)),
       dist_k = (\<lambda>z n v. (dat z - (real v + 1))\<^sup>2),
       mse_k = (\<lambda>x y. (dat x - dat y)\<^sup>2), tokens_k = (\<lambda>x. dat x)\<rparr>"

text \<open>Modules with the pyramids \<open>(1)\<close> and \<open>(1, 1)\<close>, one code and one channel.\<close>

definition single_module :: vq_module where
  "single_module =
     \<lparr>vocab_size = 1, Cvae = 1, using_znorm = False, beta = 1 / 4, v_patch_nums = [1],
       quant_resi_ratio = 1 / 2, quant_resi = PhiShared, training = True\<rparr>"

definition unit_module :: vq_module where
  "unit_module =
     \<lparr>vocab_size = 1, Cvae = 1, using_znorm = False, beta = 1 / 4, v_patch_nums = [1, 1],
       quant_resi_ratio = 0, quant_resi = PhiShared, training = True\<rparr>"

subsection \<open>The utilisation as the specification words it\<close>

text \<open>
  Modelled on the words of the specification, for comparison with lines 178-188: the
  margin \<open>world_size * (tokens per sample) / vocab_size * 0.08\<close> with \<open>H * W\<close> tokens per
  sample, and the percentage of codes whose count exceeds it.
\<close>

definition spec_margin :: "nat \<Rightarrow> nat \<Rightarrow> nat \<Rightarrow> nat \<Rightarrow> real" where
  "spec_margin world_size H W vocab = real world_size * real (H * W) / real vocab * 0.08"

definition spec_usage :: "real \<Rightarrow> real list \<Rightarrow> real" where
  "spec_usage margin row = real (length (filter (\<lambda>x. margin < x) row)) / real (length row) * 100"

text \<open>A float32 tensor of one element.\<close>

definition t1 :: "real \<Rightarrow> real tensor" where
  "t1 x = \<lparr>shape = [1, 1, 1, 1], dtype = Float32, dat = x\<rparr>"

text \<open>
  A module with two codes and the pyramid \<open>(1, 2, 3)\<close>, with identity units, and two
  lists of ground-truth indices for one sample that agree on scale 0 only.
\<close>

definition tri_module :: vq_module where
  "tri_module =
     \<lparr>vocab_size = 2, Cvae = 1, using_znorm = False, beta = 1 / 4, v_patch_nums = [1, 2, 3],
       quant_resi_ratio = 0, quant_resi = PhiShared, training = True\<rparr>"

definition gt_a :: "idx_Bl list" where
  "gt_a = [\<lparr>idx_B = 1, idx_L = 1, idx_dat = [0]\<rparr>,
           \<lparr>idx_B = 1, idx_L = 4, idx_dat = [0, 1, 0, 1]\<rparr>,
           \<lparr>idx_B = 1, idx_L = 9, idx_dat = [0, 0, 0, 0, 0, 0, 0, 0, 0]\<rparr>]"

definition gt_b :: "idx_Bl list" where
  "gt_b = [\<lparr>idx_B = 1, idx_L = 1, idx_dat = [0]\<rparr>,
           \<lparr>idx_B = 1, idx_L = 4, idx_dat = [1, 1, 1, 1]\<rparr>,
           \<lparr>idx_B = 1, idx_L = 9, idx_dat = [1, 1, 1, 1, 1, 1, 1, 1, 1]\<rparr>]"

subsection \<open>Masking coverage\<close>






section \<open>Properties\<close>

subsection \<open>Rounding\<close>

lemma fl_zero [simp]: "fl p 0 = 0"
  by (simp add: fl_def)






text \<open>
  The value of \<open>fl\<close> from the binade of its argument: with \<open>2^k \<le> |x| < 2^(k+1)\<close> the
  spacing of the floats is \<open>2^(k - p + 1)\<close>.
\<close>

lemma fl_eval:
  assumes "x \<noteq> 0" and "2 powr of_int k \<le> \<bar>x\<bar>" and "\<bar>x\<bar> < 2 powr of_int (k + 1)"
  shows "fl p x = of_int (rne (x / 2 powr of_int (k - int p + 1))) * 2 powr of_int (k - int p + 1)"
proof -
  have "\<lfloor>log 2 \<bar>x\<bar>\<rfloor> = k"
    using assms by (subst floor_log_eq_powr_iff) auto
  then show ?thesis
    using assms(1) by (simp add: fl_def Let_def)
qed







subsection \<open>First-minimum lookup\<close>

lemma argmin_first_less: "xs \<noteq> [] \<Longrightarrow> argmin_first xs < length xs"
  by (induction xs rule: argmin_first.induct) (auto simp: Let_def)

lemma argmin_first_le: "i < length xs \<Longrightarrow> xs ! argmin_first xs \<le> xs ! i"
proof (induction xs arbitrary: i rule: argmin_first.induct)
  case 1
  then show ?case by simp
next
  case (2 x)
  then show ?case by simp
next
  case (3 x y ys)
  show ?case
  proof (cases i)
    case 0
    then show ?thesis by (auto simp: Let_def)
  next
    case (Suc k)
    with 3 have "(y # ys) ! argmin_first (y # ys) \<le> (y # ys) ! k" by simp
    with Suc show ?thesis by (auto simp: Let_def)
  qed
qed

lemma argmin_first_strict: "i < argmin_first xs \<Longrightarrow> xs ! argmin_first xs < xs ! i"
proof (induction xs arbitrary: i rule: argmin_first.induct)
  case 1
  then show ?case by simp
next
  case (2 x)
  then show ?case by simp
next
  case (3 x y ys)
  show ?case
  proof (cases i)
    case 0
    with 3 show ?thesis by (auto simp: Let_def split: if_splits)
  next
    case (Suc k)
    with 3 show ?thesis by (auto simp: Let_def split: if_splits)
  qed
qed

lemma argmax_first_less: "xs \<noteq> [] \<Longrightarrow> argmax_first xs < length xs"
  using argmin_first_less [of "map uminus xs"] by (simp add: argmax_first_def)

text \<open>
  The lookup of a policy with ticks returns the first unit whose tick is nearest to the
  position, the distances being the rounded ones that \<^verbatim>\<open>np.abs(self.ticks - at)\<close>
  holds: no tick is nearer, and every tick of a lower index is strictly farther.
\<close>

lemma phi_getitem_first_nearest:
  assumes "ts \<noteq> []"
  shows "\<exists>i. phi_getitem (PhiPartiallyShared ts) t = Inr i \<and> i < length ts
           \<and> (\<forall>j<length ts. \<bar>fl 53 (ts ! i - t)\<bar> \<le> \<bar>fl 53 (ts ! j - t)\<bar>)
           \<and> (\<forall>j<i. \<bar>fl 53 (ts ! i - t)\<bar> < \<bar>fl 53 (ts ! j - t)\<bar>)"
proof -
  define ds where "ds = map (\<lambda>x. \<bar>fl 53 (x - t)\<bar>) ts"
  define i where "i = argmin_first ds"
  have ne: "ds \<noteq> []" using assms by (simp add: ds_def)
  have get: "phi_getitem (PhiPartiallyShared ts) t = Inr i"
    using ne by (simp add: np_argmin_def ds_def i_def)
  have il: "i < length ts" using argmin_first_less [OF ne] by (simp add: i_def ds_def)
  have le: "\<bar>fl 53 (ts ! i - t)\<bar> \<le> \<bar>fl 53 (ts ! j - t)\<bar>" if "j < length ts" for j
  proof -
    from that have "ds ! argmin_first ds \<le> ds ! j" by (intro argmin_first_le) (simp add: ds_def)
    then show ?thesis using that il by (simp add: ds_def i_def)
  qed
  have lt: "\<bar>fl 53 (ts ! i - t)\<bar> < \<bar>fl 53 (ts ! j - t)\<bar>" if "j < i" for j
  proof -
    from that have "ds ! argmin_first ds < ds ! j" by (intro argmin_first_strict) (simp add: i_def)
    then show ?thesis using that il by (simp add: ds_def i_def)
  qed
  from get il le lt show ?thesis by blast
qed

subsection \<open>The usage histogram: regimes of the update\<close>

lemma map2_blend: "map2 (+) (map (\<lambda>x. x * a) old) (map (\<lambda>x. x * b) new) = blend a b old new"
  by (auto simp: blend_def zip_map_map split_beta)

lemma length_blend: "length new = length old \<Longrightarrow> length (blend a b old new) = length old"
  by (simp add: blend_def)

lemma ema_update_regimes:
  assumes "length hit_V = length row"
  shows "ema_update rh row hit_V =
           (if rh = 0 then hit_V
            else if rh < 100 then blend 0.9 0.1 row hit_V
            else blend 0.99 0.01 row hit_V, None)"
  using assms by (auto simp: ema_update_def expand_to_def blend_def zip_map_map split_beta)

lemma ema_record_wf:
  assumes "wf_state m st" "wf_update m (si, hit_V)"
  shows "ema_record st si hit_V =
           (st\<lparr>ema_vocab_hit_SV := (ema_vocab_hit_SV st)
                   [si := (if record_hit st = 0 then hit_V
                           else if record_hit st < 100
                                then blend 0.9 0.1 (ema_vocab_hit_SV st ! si) hit_V
                           else blend 0.99 0.01 (ema_vocab_hit_SV st ! si) hit_V)],
                record_hit := record_hit st + 1\<rparr>, None)"
proof -
  have si: "si < length (ema_vocab_hit_SV st)" using assms by (simp add: wf_state_def wf_update_def)
  then have "length (ema_vocab_hit_SV st ! si) = vocab_size m"
    using assms(1) by (simp add: wf_state_def list_all_length)
  then have "length hit_V = length (ema_vocab_hit_SV st ! si)"
    using assms(2) by (simp add: wf_update_def)
  then show ?thesis using si by (simp add: ema_record_def ema_update_regimes)
qed

lemma ema_record_keeps_wf:
  assumes "wf_state m st" "wf_update m (si, hit_V)"
  shows "wf_state m (fst (ema_record st si hit_V))"
proof -
  have si: "si < length (ema_vocab_hit_SV st)" using assms by (simp add: wf_state_def wf_update_def)
  then have l: "length (ema_vocab_hit_SV st ! si) = vocab_size m"
    using assms(1) by (simp add: wf_state_def list_all_length)
  have h: "length hit_V = vocab_size m" using assms(2) by (simp add: wf_update_def)
  show ?thesis
    using assms(1) si l h
    by (auto simp: ema_record_wf [OF assms] wf_state_def list_all_length nth_list_update length_blend)
qed

lemma ema_updates_wf:
  assumes "wf_state m st" "list_all (wf_update m) ups"
  shows "wf_state m (ema_updates st ups) \<and> record_hit (ema_updates st ups) = record_hit st + length ups"
  using assms
proof (induction ups arbitrary: st)
  case Nil
  then show ?case by simp
next
  case (Cons up ups)
  obtain si hit_V where up: "up = (si, hit_V)" by (cases up)
  with Cons.prems have w: "wf_update m (si, hit_V)" and rest: "list_all (wf_update m) ups" by simp_all
  have "wf_state m (fst (ema_record st si hit_V))" using ema_record_keeps_wf [OF Cons.prems(1) w] .
  from Cons.IH [OF this rest] show ?case
    by (simp add: up ema_record_wf [OF Cons.prems(1) w])
qed

lemma ema_updates_append: "ema_updates st (xs @ ys) = ema_updates (ema_updates st xs) ys"
  by (induction xs arbitrary: st) auto

text \<open>
  C4, as amended.  The update is driven by the one counter \<^verbatim>\<open>record_hit\<close>, which
  counts the updates of all scales.  Starting from a counter of 0, let \<open>n\<close> updates
  have been made: then the counter is \<open>n\<close>, and the next update, the \<open>(n + 1)\<close>-th,
  writes to the row of its scale the hit counts themselves when \<open>n = 0\<close> (the first
  update copies), \<open>old * 0.9 + new * 0.1\<close> when \<open>1 \<le> n < 100\<close> (the 2nd to the 100th
  update, so the 50th), and \<open>old * 0.99 + new * 0.01\<close> when \<open>100 \<le> n\<close> (from the 101st
  update on, so the 150th); it changes nothing else but the counter.
\<close>

theorem C4_ema_regimes:
  assumes "wf_state m st0" and "record_hit st0 = 0"
    and "list_all (wf_update m) ups" and "n < length ups"
  shows "record_hit (ema_updates st0 (take n ups)) = n \<and>
         ema_updates st0 (take (Suc n) ups) =
           (ema_updates st0 (take n ups))
             \<lparr>ema_vocab_hit_SV := (ema_vocab_hit_SV (ema_updates st0 (take n ups)))
                [fst (ups ! n) :=
                   (if n = 0 then snd (ups ! n)
                    else if n < 100
                         then blend 0.9 0.1
                                (ema_vocab_hit_SV (ema_updates st0 (take n ups)) ! fst (ups ! n))
                                (snd (ups ! n))
                    else blend 0.99 0.01
                           (ema_vocab_hit_SV (ema_updates st0 (take n ups)) ! fst (ups ! n))
                           (snd (ups ! n)))],
              record_hit := Suc n\<rparr>"
proof -
  define st where "st = ema_updates st0 (take n ups)"
  have pre: "list_all (wf_update m) (take n ups)"
    using assms(3) by (auto simp: list_all_iff dest: in_set_takeD)
  have st: "wf_state m st" "record_hit st = n"
    using ema_updates_wf [OF assms(1) pre] assms(2,4) by (simp_all add: st_def)
  obtain si hit_V where nth: "ups ! n = (si, hit_V)" by (cases "ups ! n")
  have up: "wf_update m (si, hit_V)"
    using assms(3,4) nth by (metis list_all_length)
  have "take (Suc n) ups = take n ups @ [(si, hit_V)]"
    using assms(4) nth by (simp add: take_Suc_conv_app_nth)
  then have "ema_updates st0 (take (Suc n) ups) = fst (ema_record st si hit_V)"
    by (simp add: ema_updates_append st_def)
  then have "ema_updates st0 (take (Suc n) ups) =
      st\<lparr>ema_vocab_hit_SV := (ema_vocab_hit_SV st)
            [si := (if n = 0 then hit_V
                    else if n < 100 then blend 0.9 0.1 (ema_vocab_hit_SV st ! si) hit_V
                    else blend 0.99 0.01 (ema_vocab_hit_SV st ! si) hit_V)],
          record_hit := Suc n\<rparr>"
    using st(2) by (simp add: ema_record_wf [OF st(1) up])
  then show ?thesis
    using st(2) nth unfolding st_def [symmetric] by (cases "n = 0") auto
qed

text \<open>
  The second update of a one-scale, one-code histogram: 3 hits, then 1 hit, leave
  \<open>3 * 0.9 + 1 * 0.1\<close>.
\<close>

theorem C4_witness:
  "wf_state
     \<lparr>vocab_size = 1, Cvae = 1, using_znorm = False, beta = 1 / 4, v_patch_nums = [1],
       quant_resi_ratio = 0, quant_resi = PhiShared, training = True\<rparr>
     \<lparr>ema_vocab_hit_SV = [[0]], record_hit = 0\<rparr> \<and>
   list_all
     (wf_update \<lparr>vocab_size = 1, Cvae = 1, using_znorm = False, beta = 1 / 4,
        v_patch_nums = [1], quant_resi_ratio = 0, quant_resi = PhiShared, training = True\<rparr>)
     [(0, [3]), (0, [1])] \<and>
   (1::nat) < length [(0::nat, [3::real]), (0, [1])] \<and>
   ema_updates \<lparr>ema_vocab_hit_SV = [[0]], record_hit = 0\<rparr> [(0, [3]), (0, [1])]
     = \<lparr>ema_vocab_hit_SV = [[14 / 5]], record_hit = 2\<rparr>"
proof -
  let ?m = "\<lparr>vocab_size = 1, Cvae = 1, using_znorm = False, beta = 1 / 4, v_patch_nums = [1],
       quant_resi_ratio = 0, quant_resi = PhiShared, training = True\<rparr>"
  let ?st = "\<lparr>ema_vocab_hit_SV = [[0::real]], record_hit = 0\<rparr>"
  let ?ups = "[(0::nat, [3::real]), (0, [1])]"
  have a: "wf_state ?m ?st" by (simp add: wf_state_def)
  have b: "record_hit ?st = 0" by simp
  have c: "list_all (wf_update ?m) ?ups" by (simp add: wf_update_def)
  have d: "(1::nat) < length ?ups" by simp
  have e: "ema_updates ?st (take 1 ?ups) = \<lparr>ema_vocab_hit_SV = [[3]], record_hit = 1\<rparr>"
    by (simp add: ema_record_def ema_update_def expand_to_def)
  have "ema_updates ?st ?ups = \<lparr>ema_vocab_hit_SV = [[14 / 5]], record_hit = 2\<rparr>"
    using C4_ema_regimes [OF a b c d] unfolding e by (simp add: blend_def)
  with a c d show ?thesis by simp
qed

lemma ones_run:
  "0 < k \<Longrightarrow> ema_updates \<lparr>ema_vocab_hit_SV = [[1]], record_hit = k\<rparr> (replicate j (0, [1]))
     = \<lparr>ema_vocab_hit_SV = [[1]], record_hit = k + j\<rparr>"
  by (induction j arbitrary: k)
     (simp_all add: ema_record_def ema_update_def expand_to_def)

text \<open>
  C4 as stated fails at the 100th update: after 99 updates the counter is 99, below
  100, and the 100th update blends with 0.9 and 0.1, not with 0.99 and 0.01.  Here 99
  updates with one hit leave the row at 1, and the 100th, with no hit, leaves 0.9.
\<close>

theorem C4_counterexample:
  "record_hit (ema_updates \<lparr>ema_vocab_hit_SV = [[0]], record_hit = 0\<rparr> (replicate 99 (0, [1]))) = 99 \<and>
   ema_vocab_hit_SV
     (ema_updates \<lparr>ema_vocab_hit_SV = [[0]], record_hit = 0\<rparr> (replicate 99 (0, [1]) @ [(0, [0])]))
     = [[1 * 0.9 + 0 * 0.1]] \<and>
   ema_vocab_hit_SV
     (ema_updates \<lparr>ema_vocab_hit_SV = [[0]], record_hit = 0\<rparr> (replicate 99 (0, [1]) @ [(0, [0])]))
     \<noteq> [[1 * 0.99 + 0 * 0.01]]"
proof -
  have r: "replicate 99 (0::nat, [1::real]) = (0, [1]) # replicate 98 (0, [1])"
    by (simp add: replicate_Suc [symmetric] del: replicate_Suc)
  have s: "ema_updates \<lparr>ema_vocab_hit_SV = [[0]], record_hit = 0\<rparr> (replicate 99 (0, [1]))
             = \<lparr>ema_vocab_hit_SV = [[1]], record_hit = 99\<rparr>"
    unfolding r by (simp add: ema_record_def ema_update_def expand_to_def ones_run)
  show ?thesis
    by (simp add: ema_updates_append s ema_record_def ema_update_def expand_to_def)
qed

subsection \<open>Results and tensors\<close>

lemma bind_r_Inl [simp]: "bind_r (Inl e) f = Inl e"
  by (simp add: bind_r_def)

lemma bind_r_Inr [simp]: "bind_r (Inr x) f = f x"
  by (simp add: bind_r_def)

lemma bind_r_eq_Inr: "bind_r r f = Inr y \<longleftrightarrow> (\<exists>x. r = Inr x \<and> f x = Inr y)"
  by (cases r) simp_all

lemma broadcast_rev_same: "broadcast_rev xs xs = Some xs"
  by (induction xs) simp_all

lemma broadcast_shapes_same [simp]: "broadcast_shapes s s = Some s"
  by (simp add: broadcast_shapes_def broadcast_rev_same)

lemma promote_same [simp]: "promote a a = a"
  by (simp add: promote_def)

lemma t_binop_Inr:
  "t_binop k x y = Inr z \<Longrightarrow>
     broadcast_shapes (shape x) (shape y) = Some (shape z) \<and>
     dtype z = promote (dtype x) (dtype y) \<and> dat z = k x y"
  by (auto simp: t_binop_def split: option.splits)

lemma t_binop_inplace_Inr:
  "t_binop_inplace k x y = Inr z \<Longrightarrow>
     broadcast_shapes (shape x) (shape y) = Some (shape x) \<and> z = x\<lparr>dat := k x y\<rparr>"
  by (auto simp: t_binop_inplace_def split: option.splits if_splits)

lemma t_binop_same:
  "shape y = shape x \<Longrightarrow>
     t_binop k x y = Inr \<lparr>shape = shape x, dtype = promote (dtype x) (dtype y), dat = k x y\<rparr>"
  by (simp add: t_binop_def)

lemma t_binop_inplace_same:
  "shape y = shape x \<Longrightarrow> t_binop_inplace k x y = Inr (x\<lparr>dat := k x y\<rparr>)"
  by (simp add: t_binop_inplace_def)

lemma interpolate_Inr:
  "interpolate K mode hw x = Inr z \<Longrightarrow>
     (\<exists>b c h w. shape x = [b, c, h, w] \<and> shape z = [b, c, fst hw, snd hw]) \<and> dtype z = dtype x"
  by (auto simp: interpolate_def split: list.splits if_splits)

lemma conv2d_Inr: "conv2d K n u x = Inr z \<Longrightarrow> shape z = shape x \<and> dtype z = dtype x"
  by (auto simp: conv2d_def split: list.splits if_splits)

lemma Phi_forward_Inr:
  "Phi_forward K m u h = Inr z \<Longrightarrow> shape z = shape h \<and> dtype z = dtype h"
  by (auto simp: Phi_forward_def bind_r_eq_Inr t_scale_def dest!: conv2d_Inr t_binop_Inr)

lemma unit_call_Inr:
  "unit_call K m u h = Inr z \<Longrightarrow> shape z = shape h \<and> dtype z = dtype h"
  by (auto simp: unit_call_def split: if_splits dest: Phi_forward_Inr)

lemma embed_BChw_Inr:
  "embed_BChw K m idx B hw = Inr e \<Longrightarrow>
     shape e = [B, Cvae m, fst hw, snd hw] \<and> dtype e = Float32 \<and>
     length idx = B * fst hw * snd hw"
  by (auto simp: embed_BChw_def split: if_splits)

lemma scale_contribution_dtype:
  assumes "scale_contribution K m (B, C, H, W) SN si hw f_rest = Inr (idx_N, h)"
  shows "dtype h = Float32"
  using assms
  by (auto simp: scale_contribution_def bind_r_eq_Inr split: if_splits
           dest!: embed_BChw_Inr interpolate_Inr unit_call_Inr)

subsection \<open>One scale of forward\<close>

lemma find_nearest_ok:
  assumes "shape f_rest = [B, C, H, W]" "C = Cvae m" "0 < C" "0 < vocab_size m"
    and "0 < H" "0 < W" "0 < ph" "0 < pw" "\<not> resample \<longrightarrow> ph = H \<and> pw = W"
  shows "\<exists>idx. find_nearest K m C resample (ph, pw) f_rest = Inr idx \<and>
           length idx = B * ph * pw \<and> list_all (\<lambda>i. i < vocab_size m) idx"
proof -
  define z where "z = (if resample
      then \<lparr>shape = [B, C, ph, pw], dtype = dtype f_rest, dat = interp_k K Area (ph, pw) f_rest\<rparr>
      else f_rest)"
  have zi: "(if resample then interpolate K Area (ph, pw) f_rest else Inr f_rest) = Inr z"
    using assms by (simp add: z_def interpolate_def)
  have zs: "shape z = [B, C, ph, pw]" using assms by (auto simp: z_def)
  have p: "prod_list (shape z) = C * (B * ph * pw)" by (simp add: zs)
  have ne: "map f [0..<vocab_size m] \<noteq> []" for f :: "nat \<Rightarrow> real" using assms(4) by simp
  have lt: "argmax_first (map f [0..<vocab_size m]) < vocab_size m"
           "argmin_first (map f [0..<vocab_size m]) < vocab_size m" for f :: "nat \<Rightarrow> real"
    using argmax_first_less [OF ne, of f] argmin_first_less [OF ne, of f] by simp_all
  show ?thesis
    unfolding find_nearest_def zi using assms(2,3,4) lt
    by (simp add: p list_all_iff)
qed

lemma embed_BChw_ok:
  assumes "length idx = B * ph * pw" "list_all (\<lambda>i. i < vocab_size m) idx"
  shows "embed_BChw K m idx B (ph, pw)
           = Inr \<lparr>shape = [B, Cvae m, ph, pw], dtype = Float32, dat = embed_k K idx\<rparr>"
  using assms by (auto simp: embed_BChw_def list_all_iff list_ex_iff)

lemma quant_resi_get_ok:
  assumes "policy_ok (quant_resi m)" "2 \<le> SN"
  shows "\<exists>u. quant_resi_get m si (int SN) = Inr u"
  using assms
  by (cases "quant_resi m") (auto simp: quant_resi_get_def scale_pos_def policy_ok_def np_argmin_def)

lemma unit_call_ok:
  assumes "shape h = [B, Cvae m, H, W]"
  shows "\<exists>r. unit_call K m u h = Inr r \<and> shape r = shape h \<and> dtype r = dtype h"
  using assms
  by (simp add: unit_call_def Phi_forward_def conv2d_def t_scale_def t_binop_def)

lemma scale_contribution_ok:
  assumes "shape f_rest = [B, C, H, W]" "C = Cvae m" "valid_module m" "SN = length (v_patch_nums m)"
    and "0 < H" "0 < W" "0 < ph" "0 < pw" "int si = int SN - 1 \<longrightarrow> ph = H \<and> pw = W"
  shows "\<exists>idx h. scale_contribution K m (B, C, H, W) SN si (ph, pw) f_rest = Inr (idx, h) \<and>
           shape h = [B, C, H, W] \<and> dtype h = Float32 \<and> list_all (\<lambda>i. i < vocab_size m) idx"
proof -
  from assms(3) have v: "0 < vocab_size m" "0 < Cvae m" "2 \<le> length (v_patch_nums m)"
    "policy_ok (quant_resi m)" by (simp_all add: valid_module_def)
  from find_nearest_ok [OF assms(1,2) _ v(1) assms(5-8), of "int si \<noteq> int SN - 1" K] assms(2,9) v(2)
  obtain idx where idx: "find_nearest K m C (int si \<noteq> int SN - 1) (ph, pw) f_rest = Inr idx"
    "length idx = B * ph * pw" "list_all (\<lambda>i. i < vocab_size m) idx" by auto
  note e = embed_BChw_ok [OF idx(2,3), of K]
  define h0 where "h0 = (if int si \<noteq> int SN - 1
      then \<lparr>shape = [B, Cvae m, H, W], dtype = Float32,
             dat = interp_k K Bicubic (H, W) \<lparr>shape = [B, Cvae m, ph, pw], dtype = Float32, dat = embed_k K idx\<rparr>\<rparr>
      else \<lparr>shape = [B, Cvae m, ph, pw], dtype = Float32, dat = embed_k K idx\<rparr>)"
  have h0: "(if int si \<noteq> int SN - 1
      then interpolate K Bicubic (H, W) \<lparr>shape = [B, Cvae m, ph, pw], dtype = Float32, dat = embed_k K idx\<rparr>
      else Inr \<lparr>shape = [B, Cvae m, ph, pw], dtype = Float32, dat = embed_k K idx\<rparr>) = Inr h0"
    using assms(5-8) v(2) by (simp add: h0_def interpolate_def)
  have h0s: "shape h0 = [B, Cvae m, H, W]" "dtype h0 = Float32" using assms(9) by (auto simp: h0_def)
  from quant_resi_get_ok [OF v(4), of SN si] v(3) assms(4)
  obtain u where u: "quant_resi_get m si (int SN) = Inr u" by auto
  from unit_call_ok [OF h0s(1), of K u] obtain r where
    r: "unit_call K m u h0 = Inr r" "shape r = shape h0" "dtype r = dtype h0" by auto
  show ?thesis
    unfolding scale_contribution_def using idx(1,3) e h0 u r h0s assms(2)
    by simp
qed

lemma fold_max_bound:
  "list_all (\<lambda>i. i < V) idx \<Longrightarrow> a \<le> V \<Longrightarrow> fold (\<lambda>i m. max (Suc i) m) idx a \<le> V"
  by (induction idx arbitrary: a) auto

lemma length_bincount:
  "list_all (\<lambda>i. i < V) idx \<Longrightarrow> length (bincount idx V) = V"
  using fold_max_bound [of V idx 0] by (simp add: bincount_def max_def)

lemma mse_loss_Inr: "mse_loss K x y = Inr z \<Longrightarrow> shape z = [] \<and> dtype z = promote (dtype x) (dtype y)"
  by (auto simp: mse_loss_def split: option.splits)

lemma loss_term_Inr:
  "loss_term K m f_hat f = Inr t \<Longrightarrow> shape t = [] \<and> dtype t = promote (dtype f_hat) (dtype f)"
  by (auto simp: loss_term_def bind_r_eq_Inr t_scale_def dest!: mse_loss_Inr t_binop_Inr
        simp: broadcast_shapes_def)

lemma loss_term_ok:
  "shape f_hat = shape f \<Longrightarrow> \<exists>t. loss_term K m f_hat f = Inr t"
  by (simp add: loss_term_def mse_loss_def t_scale_def t_binop_def)

lemma loss_add_Inr:
  assumes "loss_add K l t = Inr l'" "shape t = []" "dtype t = Float32"
    and "case l of PyFloat c \<Rightarrow> True | Tensor x \<Rightarrow> shape x = [] \<and> dtype x = Float32"
  shows "\<exists>x. l' = Tensor x \<and> shape x = [] \<and> dtype x = Float32"
  using assms
  by (auto simp: loss_add_def bind_r_eq_Inr split: pyval.splits dest!: t_binop_inplace_Inr)

lemma loss_add_ok:
  assumes "shape t = []"
    and "case l of PyFloat c \<Rightarrow> True | Tensor x \<Rightarrow> shape x = [] \<and> dtype x = Float32"
  shows "\<exists>l'. loss_add K l t = Inr l'"
  using assms by (auto simp: loss_add_def t_binop_inplace_def split: pyval.splits)

lemma forward_scale_inv:
  assumes "forward_scale K env m f BCHW SN sipn (st, vars) = (st', Inr vars')"
    and "loop_inv f vars" and "dtype f = Float32"
  shows "loop_inv f vars' \<and> is_tensor (snd (snd vars'))"
proof -
  obtain B C H W where BCHW: "BCHW = (B, C, H, W)" by (cases BCHW) auto
  obtain si pn where sipn: "sipn = (si, pn)" by (cases sipn)
  obtain f_rest f_hat l where vars: "vars = (f_rest, f_hat, l)" by (cases vars) auto
  obtain f_rest' f_hat' l' where vars': "vars' = (f_rest', f_hat', l')" by (cases vars') auto
  from assms(1) obtain idx_N h t where
    sc: "scale_contribution K m (B, C, H, W) SN si (pn, pn) f_rest = Inr (idx_N, h)"
    and fh: "t_binop (add_k K) f_hat h = Inr f_hat'"
    and fr: "t_binop_inplace (sub_k K) f_rest h = Inr f_rest'"
    and lt: "loss_term K m f_hat' f = Inr t"
    and la: "loss_add K l t = Inr l'"
    unfolding forward_scale_def BCHW sipn vars vars'
    by (auto simp: bind_r_eq_Inr split: sum.splits prod.splits option.splits if_splits)
  have hd: "dtype h = Float32" using scale_contribution_dtype [OF sc] .
  from assms(2) have inv: "shape f_rest = shape f" "shape f_hat = shape f"
    "dtype f_rest = Float32" "dtype f_hat = Float32"
    "case l of PyFloat c \<Rightarrow> True | Tensor x \<Rightarrow> shape x = [] \<and> dtype x = Float32"
    by (simp_all add: loop_inv_def vars)
  from t_binop_inplace_Inr [OF fr] have r1: "broadcast_shapes (shape f_rest) (shape h) = Some (shape f_rest)"
    and r2: "f_rest' = f_rest\<lparr>dat := sub_k K f_rest h\<rparr>" by simp_all
  from t_binop_Inr [OF fh] have h1: "broadcast_shapes (shape f_hat) (shape h) = Some (shape f_hat')"
    and h2: "dtype f_hat' = promote (dtype f_hat) (dtype h)" by simp_all
  have sh: "shape f_hat' = shape f" using r1 h1 inv(1,2) by simp
  have dh: "dtype f_hat' = Float32" using h2 hd inv(4) by simp
  from loss_term_Inr [OF lt] have t: "shape t = []" "dtype t = Float32"
    using dh assms(3) by simp_all
  from loss_add_Inr [OF la t inv(5)] obtain x where x: "l' = Tensor x" "shape x = []" "dtype x = Float32"
    by blast
  show ?thesis using r2 inv sh dh x by (simp add: loop_inv_def vars' is_tensor_def)
qed

lemma forward_scale_ok:
  assumes "valid_module m" "SN = length (v_patch_nums m)" "shape f = [B, C, H, W]" "C = Cvae m"
    and "0 < H" "0 < W" "loop_inv f vars" "si < SN" "0 < pn"
    and "int si = int SN - 1 \<longrightarrow> pn = H \<and> pn = W" "wf_state m st"
    and "training m \<and> initialized env \<longrightarrow> valid_env env"
  shows "\<exists>st' vars'. forward_scale K env m f (B, C, H, W) SN (si, pn) (st, vars) = (st', Inr vars')
           \<and> wf_state m st'"
proof -
  obtain f_rest f_hat l where vars: "vars = (f_rest, f_hat, l)" by (cases vars) auto
  from assms(7) have inv: "shape f_rest = shape f" "shape f_hat = shape f"
    "case l of PyFloat c \<Rightarrow> True | Tensor x \<Rightarrow> shape x = [] \<and> dtype x = Float32"
    by (simp_all add: loop_inv_def vars)
  have fr: "shape f_rest = [B, C, H, W]" using inv(1) assms(3) by simp
  from scale_contribution_ok [OF fr assms(4,1,2,5,6) assms(9,9) assms(10), of K]
  obtain idx h where sc: "scale_contribution K m (B, C, H, W) SN si (pn, pn) f_rest = Inr (idx, h)"
    and hs: "shape h = [B, C, H, W]" and ix: "list_all (\<lambda>i. i < vocab_size m) idx" by blast
  define f_hat' where "f_hat' = \<lparr>shape = shape f_hat, dtype = promote (dtype f_hat) (dtype h), dat = add_k K f_hat h\<rparr>"
  define f_rest' where "f_rest' = f_rest\<lparr>dat := sub_k K f_rest h\<rparr>"
  have a: "t_binop (add_k K) f_hat h = Inr f_hat'"
    using hs inv(2) assms(3) by (simp add: t_binop_same f_hat'_def)
  have b: "t_binop_inplace (sub_k K) f_rest h = Inr f_rest'"
    using hs fr by (simp add: t_binop_inplace_same f_rest'_def)
  define hit where "hit = all_reduce env (bincount idx (vocab_size m))"
  obtain st' where e: "(if training m \<and> initialized env then ema_record st si hit else (st, None)) = (st', None)"
    and w: "wf_state m st'"
  proof (cases "training m \<and> initialized env")
    case True
    then have "length hit = vocab_size m"
      using assms(12) length_bincount [OF ix] by (simp add: hit_def valid_env_def)
    then have up: "wf_update m (si, hit)" using assms(2,8) by (simp add: wf_update_def)
    show ?thesis
      using ema_record_wf [OF assms(11) up] ema_record_keeps_wf [OF assms(11) up] True that
      by auto
  next
    case False
    then show ?thesis using assms(11) that by auto
  qed
  have "shape f_hat' = shape f" using inv(2) by (simp add: f_hat'_def)
  from loss_term_ok [OF this, of K m] obtain t where t: "loss_term K m f_hat' f = Inr t" by blast
  from loss_term_Inr [OF t] have "shape t = []" by simp
  from loss_add_ok [OF this inv(3), of K] obtain l' where l': "loss_add K l t = Inr l'" by blast
  have "forward_scale K env m f (B, C, H, W) SN (si, pn) (st, vars) = (st', Inr (f_rest', f_hat', l'))"
    unfolding forward_scale_def vars using sc a b e t l'
    by (cases "training m \<and> initialized env") (auto simp: hit_def)
  with w show ?thesis by blast
qed


subsection \<open>The loop of forward\<close>

lemma forward_scale_state:
  "\<not> (training m \<and> initialized env) \<Longrightarrow>
     fst (forward_scale K env m f BCHW SN sipn (st, vars)) = st"
  by (auto simp: forward_scale_def split: prod.splits sum.splits)

lemma forward_loop_state:
  "\<not> (training m \<and> initialized env) \<Longrightarrow>
     fst (forward_loop K env m f BCHW SN sps (st, vars)) = st"
proof (induction sps arbitrary: vars)
  case Nil
  then show ?case by simp
next
  case (Cons sp sps)
  from forward_scale_state [OF Cons.prems, of K f BCHW SN sp st vars]
  show ?case using Cons.IH [OF Cons.prems]
    by (auto split: prod.splits sum.splits)
qed

lemma forward_state:
  "\<not> (training m \<and> initialized env) \<Longrightarrow> fst (forward K env m st f ret) = st"
  using forward_loop_state [of m env K]
  by (auto simp: forward_def split: sum.splits prod.splits) (metis fst_conv)+

lemma forward_loop_inv:
  assumes "forward_loop K env m f BCHW SN sps (st, vars) = (st', Inr vars')"
    and "loop_inv f vars" and "dtype f = Float32"
  shows "loop_inv f vars' \<and> (sps \<noteq> [] \<longrightarrow> is_tensor (snd (snd vars')))"
  using assms
proof (induction sps arbitrary: st vars)
  case Nil
  then show ?case by simp
next
  case (Cons sp sps)
  from Cons.prems(1) obtain st1 vars1 where
    s: "forward_scale K env m f BCHW SN sp (st, vars) = (st1, Inr vars1)"
    and r: "forward_loop K env m f BCHW SN sps (st1, vars1) = (st', Inr vars')"
    by (auto split: prod.splits sum.splits)
  from forward_scale_inv [OF s Cons.prems(2,3)]
  have i1: "loop_inv f vars1" and t1: "is_tensor (snd (snd vars1))" by simp_all
  from Cons.IH [OF r i1 Cons.prems(3)]
  have i2: "loop_inv f vars'" and t2: "sps \<noteq> [] \<longrightarrow> is_tensor (snd (snd vars'))" by simp_all
  have "is_tensor (snd (snd vars'))"
  proof (cases sps)
    case Nil
    with r t1 show ?thesis by simp
  next
    case (Cons a list)
    with t2 show ?thesis by simp
  qed
  with i2 show ?case by simp
qed

lemma forward_loop_ok:
  assumes "valid_module m" "SN = length (v_patch_nums m)" "shape f = [B, C, H, W]" "C = Cvae m"
    and "0 < H" "0 < W" "dtype f = Float32" "training m \<and> initialized env \<longrightarrow> valid_env env"
    and "list_all (\<lambda>(si, pn). si < SN \<and> 0 < pn \<and> (int si = int SN - 1 \<longrightarrow> pn = H \<and> pn = W)) sps"
    and "loop_inv f vars" "wf_state m st"
  shows "\<exists>st' vars'. forward_loop K env m f (B, C, H, W) SN sps (st, vars) = (st', Inr vars')
           \<and> wf_state m st'"
  using assms(9-)
proof (induction sps arbitrary: st vars)
  case Nil
  then show ?case by (cases vars) auto
next
  case (Cons sp sps)
  obtain si pn where sp: "sp = (si, pn)" by (cases sp)
  from Cons.prems(1) have c: "si < SN" "0 < pn" "int si = int SN - 1 \<longrightarrow> pn = H \<and> pn = W"
    and rest: "list_all (\<lambda>(si, pn). si < SN \<and> 0 < pn \<and> (int si = int SN - 1 \<longrightarrow> pn = H \<and> pn = W)) sps"
    by (auto simp: sp)
  from forward_scale_ok [OF assms(1-6) Cons.prems(2) c Cons.prems(3) assms(8), of K]
  obtain st1 vars1 where
    s: "forward_scale K env m f (B, C, H, W) SN (si, pn) (st, vars) = (st1, Inr vars1)"
    and w: "wf_state m st1" by blast
  from forward_scale_inv [OF s Cons.prems(2) assms(7)] have i1: "loop_inv f vars1" by simp
  from Cons.IH [OF rest i1 w] show ?case using s by (simp add: sp)
qed

lemma enumerate_pyramid:
  assumes "list_all (\<lambda>pn. 0 < pn) pns" "pns \<noteq> []"
  shows "list_all (\<lambda>(si, pn). si < length pns \<and> 0 < pn \<and>
            (int si = int (length pns) - 1 \<longrightarrow> pn = last pns \<and> pn = last pns))
           (List.enumerate 0 pns)"
proof -
  have "a = length pns - Suc 0" if "int a = int (length pns) - 1" for a
    using that by arith
  then show ?thesis
    using assms by (auto simp: list_all_iff in_set_enumerate_eq last_conv_nth)
qed

lemma cast_input_simps [simp]:
  "dtype (cast_input K f) = Float32" "shape (cast_input K f) = shape f"
  by (simp_all add: cast_input_def t_float_def)

lemma cast_input_idem: "dtype f = Float32 \<Longrightarrow> cast_input K f = f"
  by (simp add: cast_input_def)

lemma loop_inv_init: "loop_inv (cast_input K f) (cast_input K f, zeros_like K (cast_input K f), PyFloat 0)"
  by (simp add: loop_inv_def zeros_like_def)

subsection \<open>forward as a whole\<close>

lemma forward_Inr:
  assumes "forward K env m st f ret = (st', Inr res)"
  shows "\<exists>B C H W vars.
     shape f = [B, C, H, W] \<and>
     forward_loop K env m (cast_input K f) (B, C, H, W) (length (v_patch_nums m))
       (List.enumerate 0 (v_patch_nums m))
       (st, cast_input K f, zeros_like K (cast_input K f), PyFloat 0) = (st', Inr vars) \<and>
     forward_finish K env m st' (cast_input K f) C vars ret = Inr res"
  using assms
  by (auto simp: forward_def unpack4_def split: sum.splits prod.splits list.splits)

lemma forward_finish_Inr:
  assumes "forward_finish K env m st f C (f_rest, f_hat, l) ret = Inr (out, us, loss)"
  shows "\<exists>d margin.
     loss_scale K l (length (v_patch_nums m)) = Inr loss \<and>
     t_binop (sub_k K) f_hat f = Inr d \<and>
     t_binop_inplace (add_k K) d f = Inr out \<and>
     usage_margin env m (prod_list (shape f)) C = Inr margin \<and>
     (if ret then \<exists>u. usages_of m st margin = Inr u \<and> us = Some u else us = None)"
  using assms
  by (auto simp: forward_finish_def bind_r_eq_Inr split: if_splits)

lemma forward_finish_ok:
  assumes "shape f_hat = shape f" "0 < length (v_patch_nums m)" "get_world_size env = Inr ws"
    and "0 < C" "0 < vocab_size m" "wf_state m st"
  shows "\<exists>res. forward_finish K env m st f C (f_rest, f_hat, l) ret = Inr res"
  using assms
  by (simp add: forward_finish_def loss_scale_def t_binop_same t_binop_inplace_same
        usage_margin_def usages_of_def wf_state_def)

lemma valid_input_shape:
  assumes "valid_input m f"
  obtains B where "shape f = [B, Cvae m, last (v_patch_nums m), last (v_patch_nums m)]"
  using assms by (auto simp: valid_input_def split: list.splits)

lemma forward_returns:
  assumes "valid_module m" "valid_input m f" "wf_state m st"
    and "training m \<and> initialized env \<longrightarrow> valid_env env" "get_world_size env = Inr ws"
  shows "\<exists>st' res. forward K env m st f ret = (st', Inr res) \<and> wf_state m st'"
proof -
  from assms(2) obtain B where
    sh: "shape f = [B, Cvae m, last (v_patch_nums m), last (v_patch_nums m)]"
    by (rule valid_input_shape)
  define H where "H = last (v_patch_nums m)"
  define f' where "f' = cast_input K f"
  from assms(1) have v: "0 < vocab_size m" "0 < Cvae m" "2 \<le> length (v_patch_nums m)"
    "list_all (\<lambda>pn. 0 < pn) (v_patch_nums m)" by (simp_all add: valid_module_def)
  have ne: "v_patch_nums m \<noteq> []" using v(3) by auto
  then have "last (v_patch_nums m) \<in> set (v_patch_nums m)" by simp
  then have H: "0 < H" using v(4) by (simp add: H_def list_all_iff)
  have sh': "shape f' = [B, Cvae m, H, H]" by (simp add: f'_def sh H_def)
  have e: "list_all (\<lambda>(si, pn). si < length (v_patch_nums m) \<and> 0 < pn \<and>
              (int si = int (length (v_patch_nums m)) - 1 \<longrightarrow> pn = H \<and> pn = H))
            (List.enumerate 0 (v_patch_nums m))"
    unfolding H_def by (rule enumerate_pyramid [OF v(4) ne])
  have d: "dtype f' = Float32" by (simp add: f'_def)
  have i: "loop_inv f' (f', zeros_like K f', PyFloat 0)" unfolding f'_def by (rule loop_inv_init)
  from forward_loop_ok [OF assms(1) refl sh' refl H H d assms(4) e i assms(3), of K]
  obtain st' vars where l: "forward_loop K env m f' (B, Cvae m, H, H) (length (v_patch_nums m))
       (List.enumerate 0 (v_patch_nums m)) (st, f', zeros_like K f', PyFloat 0) = (st', Inr vars)"
    and w: "wf_state m st'" by blast
  from forward_loop_inv [OF l i d] have i': "loop_inv f' vars" by simp
  obtain f_rest f_hat lo where vars: "vars = (f_rest, f_hat, lo)" by (cases vars) auto
  from i' have "shape f_hat = shape f'" by (simp add: loop_inv_def vars)
  moreover have "0 < length (v_patch_nums m)" using ne by simp
  ultimately obtain res where
    r: "forward_finish K env m st' f' (Cvae m) (f_rest, f_hat, lo) ret = Inr res"
    using forward_finish_ok [OF _ _ assms(5) v(2,1) w, of f_hat f' K f_rest lo ret] by blast
  have "forward K env m st f ret = (st', Inr res)"
    using l r unfolding forward_def f'_def [symmetric]
    by (simp add: f'_def sh unpack4_def H_def vars)
  with w show ?thesis by blast
qed

lemma forward_Inr_facts:
  assumes "forward K env m st f ret = (st', Inr (out, us, loss))"
  shows "\<exists>B C H W f_rest f_hat l d margin.
     shape f = [B, C, H, W] \<and>
     forward_loop K env m (cast_input K f) (B, C, H, W) (length (v_patch_nums m))
       (List.enumerate 0 (v_patch_nums m))
       (st, cast_input K f, zeros_like K (cast_input K f), PyFloat 0)
       = (st', Inr (f_rest, f_hat, l)) \<and>
     loop_inv (cast_input K f) (f_rest, f_hat, l) \<and> is_tensor l \<and>
     loss_scale K l (length (v_patch_nums m)) = Inr loss \<and>
     t_binop (sub_k K) f_hat (cast_input K f) = Inr d \<and>
     out = d\<lparr>dat := add_k K d (cast_input K f)\<rparr> \<and>
     shape d = shape f \<and> dtype d = Float32 \<and>
     usage_margin env m (prod_list (shape f)) C = Inr margin \<and>
     (if ret then \<exists>u. usages_of m st' margin = Inr u \<and> us = Some u else us = None)"
proof -
  from forward_Inr [OF assms] obtain B C H W vars where
    sh: "shape f = [B, C, H, W]"
    and l: "forward_loop K env m (cast_input K f) (B, C, H, W) (length (v_patch_nums m))
       (List.enumerate 0 (v_patch_nums m))
       (st, cast_input K f, zeros_like K (cast_input K f), PyFloat 0) = (st', Inr vars)"
    and fin: "forward_finish K env m st' (cast_input K f) C vars ret = Inr (out, us, loss)"
    by blast
  obtain f_rest f_hat lo where vars: "vars = (f_rest, f_hat, lo)" by (cases vars) auto
  from forward_finish_Inr [OF fin [unfolded vars]] obtain d margin where
    ls: "loss_scale K lo (length (v_patch_nums m)) = Inr loss"
    and sub: "t_binop (sub_k K) f_hat (cast_input K f) = Inr d"
    and add: "t_binop_inplace (add_k K) d (cast_input K f) = Inr out"
    and mg: "usage_margin env m (prod_list (shape (cast_input K f))) C = Inr margin"
    and us: "if ret then \<exists>u. usages_of m st' margin = Inr u \<and> us = Some u else us = None"
    by blast
  from ls have ne: "v_patch_nums m \<noteq> []" by (auto simp: loss_scale_def split: if_splits)
  then have ne': "List.enumerate 0 (v_patch_nums m) \<noteq> []" by (simp add: enumerate_eq_zip)
  from forward_loop_inv [OF l loop_inv_init] ne'
  have inv: "loop_inv (cast_input K f) vars" and ten: "is_tensor lo" by (simp_all add: vars)
  from inv have fh: "shape f_hat = shape f" "dtype f_hat = Float32" by (simp_all add: loop_inv_def vars)
  from t_binop_Inr [OF sub] fh have d: "shape d = shape f" "dtype d = Float32" by simp_all
  from t_binop_inplace_Inr [OF add] have out: "out = d\<lparr>dat := add_k K d (cast_input K f)\<rparr>" by simp
  show ?thesis using sh l inv ten ls sub out d mg us unfolding vars by auto
qed

text \<open>
  The small module on an input of any dtype, without distributed mode: the call returns,
  and the state is the one before the call.
\<close>

lemma demo_forward_off:
  "\<exists>out loss. forward K env_off demo_module demo_state (demo_input 2 dt d) False
     = (demo_state, Inr (out, None, loss))"
  apply (simp add: forward_def cast_input_def t_float_def demo_input_def unpack4_def demo_module_def
     enumerate_eq_zip upt_rec zeros_like_def)
  apply (simp add: forward_scale_def scale_contribution_def find_nearest_def interpolate_def
     embed_BChw_def quant_resi_get_def scale_pos_def np_argmin_def unit_call_def Phi_forward_def
     conv2d_def t_scale_def t_binop_def t_binop_inplace_def broadcast_shapes_def bincount_def
     env_off_def loss_term_def mse_loss_def loss_add_def upt_rec)
  apply (simp add: forward_finish_def loss_scale_def t_binop_def t_binop_inplace_def broadcast_shapes_def
     usage_margin_def t_scale_def)
  done

subsection \<open>Dtypes\<close>

text \<open>
  C10.  When \<^verbatim>\<open>forward\<close> returns, the reconstruction is float32 and has the shape of
  the input, and the loss is a float32 tensor, whatever the dtype of the input; on an
  input that is not float32 the call is the call on the input cast to float32.
\<close>

theorem C10_forward_float32:
  assumes "forward K env m st f_in ret_usages = (st', Inr (out, usages, loss))"
  shows "dtype out = Float32 \<and> shape out = shape f_in \<and>
         (\<exists>t. loss = Tensor t \<and> dtype t = Float32) \<and>
         (dtype f_in \<noteq> Float32 \<longrightarrow>
            forward K env m st (t_float K f_in) ret_usages = forward K env m st f_in ret_usages)"
proof -
  from forward_Inr_facts [OF assms] obtain f_rest f_hat l d where
    inv: "loop_inv (cast_input K f_in) (f_rest, f_hat, l)" and ten: "is_tensor l"
    and ls: "loss_scale K l (length (v_patch_nums m)) = Inr loss"
    and out: "out = d\<lparr>dat := add_k K d (cast_input K f_in)\<rparr>"
    and d: "shape d = shape f_in" "dtype d = Float32" by blast
  from ten obtain x where x: "l = Tensor x" by (cases l) (simp_all add: is_tensor_def)
  with inv have "dtype x = Float32" by (simp add: loop_inv_def)
  with ls x have "\<exists>t. loss = Tensor t \<and> dtype t = Float32"
    by (auto simp: loss_scale_def t_scale_def split: if_splits)
  moreover have "dtype f_in \<noteq> Float32 \<longrightarrow>
      forward K env m st (t_float K f_in) ret_usages = forward K env m st f_in ret_usages"
  proof
    assume "dtype f_in \<noteq> Float32"
    then have c: "cast_input K (t_float K f_in) = cast_input K f_in"
      by (simp add: cast_input_def t_float_def)
    show "forward K env m st (t_float K f_in) ret_usages = forward K env m st f_in ret_usages"
      unfolding forward_def c by (rule refl)
  qed
  ultimately show ?thesis using out d by simp
qed

text \<open>A float16 input: the reconstruction is float32.\<close>

theorem C10_witness:
  "\<forall>(K :: 'd kernels) d. \<exists>st' out usages loss.
     forward K env_off demo_module demo_state (demo_input 2 Float16 d) False
       = (st', Inr (out, usages, loss)) \<and>
     dtype (demo_input 2 Float16 d) = Float16 \<and> dtype out = Float32 \<and>
     shape out = [1, 1, 2, 2] \<and> (\<exists>t. loss = Tensor t \<and> dtype t = Float32)"
proof (intro allI)
  fix K :: "'d kernels" and d :: 'd
  from demo_forward_off [of K Float16 d] obtain out loss where
    r: "forward K env_off demo_module demo_state (demo_input 2 Float16 d) False
          = (demo_state, Inr (out, None, loss))" by blast
  from C10_forward_float32 [OF r] r
  show "\<exists>st' out usages loss.
     forward K env_off demo_module demo_state (demo_input 2 Float16 d) False
       = (st', Inr (out, usages, loss)) \<and>
     dtype (demo_input 2 Float16 d) = Float16 \<and> dtype out = Float32 \<and>
     shape out = [1, 1, 2, 2] \<and> (\<exists>t. loss = Tensor t \<and> dtype t = Float32)"
    by (simp add: demo_input_def)
qed

subsection \<open>The histogram without distributed mode\<close>

text \<open>Unfolding sets for evaluating \<^verbatim>\<open>forward\<close> on the small modules.\<close>

lemmas forward_unfold =
  forward_def cast_input_def t_float_def demo_input_def unpack4_def enumerate_eq_zip upt_rec
  zeros_like_def

lemmas scale_unfold =
  forward_scale_def scale_contribution_def find_nearest_def interpolate_def
  embed_BChw_def quant_resi_get_def scale_pos_def np_argmin_def unit_call_def Phi_forward_def
  conv2d_def t_scale_def t_binop_def t_binop_inplace_def broadcast_shapes_def bincount_def
  loss_term_def mse_loss_def loss_add_def upt_rec ema_record_def ema_update_def expand_to_def

lemmas finish_unfold =
  forward_finish_def loss_scale_def t_binop_def t_binop_inplace_def broadcast_shapes_def
  usage_margin_def t_scale_def usages_of_def usage_of_row_def upt_rec

lemma demo_valid: "valid_module demo_module" "wf_state demo_module demo_state"
  "valid_input demo_module (demo_input 2 dt d)"
  by (simp_all add: valid_module_def valid_input_def wf_state_def demo_module_def demo_state_def
        demo_input_def policy_ok_def)

text \<open>
  C1, as amended.  For a training-mode call to \<^verbatim>\<open>forward\<close> while distributed mode is
  not initialised, on a valid module and input and provided \<^verbatim>\<open>tdist.get_world_size()\<close>
  returns, the call completes successfully and leaves the usage histogram and the
  times-updated counter as they were: the update of lines 161-169 is under the same
  guard \<^verbatim>\<open>self.training and dist.initialized()\<close> as the reduction, so both are skipped.
\<close>

theorem C1_no_update_without_dist:
  assumes "training m" and "\<not> initialized env"
    and "valid_module m" and "valid_input m f" and "wf_state m st"
    and "get_world_size env = Inr ws"
  shows "\<exists>res. forward K env m st f ret_usages = (st, Inr res)"
proof -
  from forward_returns [OF assms(3,4,5) _ assms(6), of K ret_usages] assms(2)
  obtain st' res where r: "forward K env m st f ret_usages = (st', Inr res)" by auto
  from forward_state [of m env K st f ret_usages] assms(2) r have "st' = st" by simp
  with r show ?thesis by blast
qed

theorem C1_witness:
  "\<forall>(K :: 'd kernels) d.
     training demo_module \<and> \<not> initialized env_off \<and> valid_module demo_module \<and>
     valid_input demo_module (demo_input 2 Float32 d) \<and> wf_state demo_module demo_state \<and>
     get_world_size env_off = Inr 1 \<and>
     (\<exists>res. forward K env_off demo_module demo_state (demo_input 2 Float32 d) True
        = (demo_state, Inr res))"
proof (intro allI)
  fix K :: "'d kernels" and d :: 'd
  have a: "training demo_module" by (simp add: demo_module_def)
  have b: "\<not> initialized env_off" by (simp add: env_off_def)
  have c: "get_world_size env_off = Inr 1" by (simp add: env_off_def)
  from C1_no_update_without_dist
         [OF a b demo_valid(1) demo_valid(3) [of Float32 d] demo_valid(2) c,
          where K = K and ret_usages = True]
  show "training demo_module \<and> \<not> initialized env_off \<and> valid_module demo_module \<and>
     valid_input demo_module (demo_input 2 Float32 d) \<and> wf_state demo_module demo_state \<and>
     get_world_size env_off = Inr 1 \<and>
     (\<exists>res. forward K env_off demo_module demo_state (demo_input 2 Float32 d) True
        = (demo_state, Inr res))"
    using a b c demo_valid by simp
qed

text \<open>
  The small module in training mode with a single-process runtime, whose reduction leaves
  the local hit counts (1 hit at scale 0, 4 hits at scale 1): the first row copies
  the count 1, the second blends to \<open>0 * 0.9 + 4 * 0.1\<close>, the counter reaches 2.
\<close>

lemma demo_forward_single:
  "\<exists>out loss. forward K env_single demo_module demo_state (demo_input 2 Float32 d) False
     = (\<lparr>ema_vocab_hit_SV = [[1], [2 / 5]], record_hit = 2\<rparr>, Inr (out, None, loss))"
  apply (simp add: forward_unfold demo_module_def)
  apply (simp add: scale_unfold env_single_def demo_state_def)
  apply (simp add: finish_unfold)
  done

text \<open>
  C1 as stated fails: in training mode without distributed mode the call returns and
  every row of the histogram and the counter are unchanged, although the local hit
  counts are not zero; the update with the local counts is what the single-process
  runtime shows.
\<close>

theorem C1_counterexample:
  "\<forall>(K :: 'd kernels) d.
     training demo_module \<and> \<not> initialized env_off \<and>
     (\<exists>out loss. forward K env_off demo_module demo_state (demo_input 2 Float32 d) False
        = (demo_state, Inr (out, None, loss))) \<and>
     demo_state = \<lparr>ema_vocab_hit_SV = [[0], [0]], record_hit = 0\<rparr> \<and>
     (\<exists>out loss. forward K env_single demo_module demo_state (demo_input 2 Float32 d) False
        = (\<lparr>ema_vocab_hit_SV = [[1], [2 / 5]], record_hit = 2\<rparr>, Inr (out, None, loss)))"
proof (intro allI conjI)
  fix K :: "'d kernels" and d :: 'd
  show "training demo_module" by (simp add: demo_module_def)
  show "\<not> initialized env_off" by (simp add: env_off_def)
  show "\<exists>out loss. forward K env_off demo_module demo_state (demo_input 2 Float32 d) False
        = (demo_state, Inr (out, None, loss))" by (rule demo_forward_off)
  show "demo_state = \<lparr>ema_vocab_hit_SV = [[0], [0]], record_hit = 0\<rparr>" by (simp add: demo_state_def)
  show "\<exists>out loss. forward K env_single demo_module demo_state (demo_input 2 Float32 d) False
        = (\<lparr>ema_vocab_hit_SV = [[1], [2 / 5]], record_hit = 2\<rparr>, Inr (out, None, loss))"
    by (rule demo_forward_single)
qed

subsection \<open>Shape and value of the reconstruction\<close>

text \<open>
  For a module with a pyramid of at least two scales (and a code, a channel, positive
  patch numbers) and an input of shape \<open>(B, C, H, W)\<close> with \<open>C = Cvae\<close> whose resolution
  is that of the last scale, \<^verbatim>\<open>forward\<close> returns, provided
  \<^verbatim>\<open>tdist.get_world_size()\<close> does: the reconstruction has the shape \<open>(B, C, H, W)\<close>,
  and its value is \<open>(f_hat - input) + input\<close> as the tensor arithmetic computes it, for
  \<open>f_hat\<close> the accumulated reconstruction at the end of the loop, of the same shape and
  dtype.
\<close>

lemma forward_shape_value:
  assumes "valid_module m" and "valid_input m f" and "wf_state m st"
    and "training m \<and> initialized env \<longrightarrow> valid_env env"
    and "get_world_size env = Inr ws"
  shows "\<exists>st' B C H W f_rest f_hat l d out us loss.
     shape f = [B, C, H, W] \<and>
     forward_loop K env m (cast_input K f) (B, C, H, W) (length (v_patch_nums m))
       (List.enumerate 0 (v_patch_nums m))
       (st, cast_input K f, zeros_like K (cast_input K f), PyFloat 0)
       = (st', Inr (f_rest, f_hat, l)) \<and>
     forward K env m st f ret_usages = (st', Inr (out, us, loss)) \<and>
     shape out = [B, C, H, W] \<and> shape f_hat = [B, C, H, W] \<and> dtype f_hat = dtype out \<and>
     t_binop (sub_k K) f_hat (cast_input K f) = Inr d \<and>
     out = d\<lparr>dat := add_k K d (cast_input K f)\<rparr>"
proof -
  from forward_returns [OF assms, of K ret_usages]
  obtain st' res where r: "forward K env m st f ret_usages = (st', Inr res)" by blast
  obtain out us loss where res: "res = (out, us, loss)" by (cases res) auto
  from forward_Inr_facts [OF r [unfolded res]] obtain B C H W f_rest f_hat l d where
    sh: "shape f = [B, C, H, W]"
    and lp: "forward_loop K env m (cast_input K f) (B, C, H, W) (length (v_patch_nums m))
       (List.enumerate 0 (v_patch_nums m))
       (st, cast_input K f, zeros_like K (cast_input K f), PyFloat 0)
       = (st', Inr (f_rest, f_hat, l))"
    and inv: "loop_inv (cast_input K f) (f_rest, f_hat, l)"
    and sub: "t_binop (sub_k K) f_hat (cast_input K f) = Inr d"
    and out: "out = d\<lparr>dat := add_k K d (cast_input K f)\<rparr>"
    and d: "shape d = shape f" "dtype d = Float32" by blast
  from inv have "shape f_hat = shape f" "dtype f_hat = Float32"
    by (simp_all add: loop_inv_def)
  then show ?thesis using sh lp r res sub out d by auto
qed

text \<open>
  The module with the pyramid \<open>(1, 1)\<close> on the one-element input 3, with exact kernels:
  each scale contributes the embedding 1 of code 0, and the reconstruction is 2.
\<close>

lemma unit_forward_scalar:
  "\<exists>loss. forward scalar_kernels env_off unit_module demo_state (demo_input 1 Float32 3) False
     = (demo_state, Inr (\<lparr>shape = [1, 1, 1, 1], dtype = Float32, dat = 2\<rparr>, None, loss))"
  apply (simp add: forward_unfold unit_module_def)
  apply (simp add: scale_unfold env_off_def scalar_kernels_def)
  apply (simp add: finish_unfold)
  done

text \<open>
  C2.  A pyramid of one scale \<open>(1)\<close> and an input of shape \<open>(1, 1, 1, 1)\<close>, which has the
  resolution of the last scale and \<open>Cvae\<close> channels: \<^verbatim>\<open>forward\<close> returns no
  reconstruction.  At the only scale \<^verbatim>\<open>si / (SN - 1)\<close> is \<open>0 / 0\<close> and raises
  ZeroDivisionError, for every kernel, and the histogram is left as it was.
  \<^verbatim>\<open>idxBl_to_ns_input\<close> accepts the same pyramid: its loop over \<^verbatim>\<open>range(SN - 1)\<close>
  is empty and it returns \<^verbatim>\<open>None\<close>.
\<close>

theorem C2_forward_one_scale_raises:
  "\<forall>(K :: 'd kernels) d.
     shape (demo_input 1 Float32 d) = [1, 1, 1, 1] \<and> v_patch_nums single_module = [1] \<and>
     Cvae single_module = 1 \<and>
     forward K env_off single_module \<lparr>ema_vocab_hit_SV = [[0]], record_hit = 0\<rparr>
       (demo_input 1 Float32 d) False
       = (\<lparr>ema_vocab_hit_SV = [[0]], record_hit = 0\<rparr>, Inl ZeroDivisionError) \<and>
     idxBl_to_ns_input K single_module [\<lparr>idx_B = 1, idx_L = 1, idx_dat = [0]\<rparr>] = Inr None"
  by (simp add: forward_unfold single_module_def scale_unfold idxBl_to_ns_input_def)

subsection \<open>Utilisation\<close>

lemma usage_of_row_card:
  "row \<noteq> [] \<Longrightarrow>
     usage_of_row margin row =
       Some (real (card {v. v < length row \<and> margin \<le> row ! v}) / real (length row) * 100)"
  by (simp add: usage_of_row_def length_filter_conv_card)

lemma usage_margin_Inr:
  assumes "usage_margin env m (prod_list [B, C, H, W]) C = Inr margin"
  shows "\<exists>ws. get_world_size env = Inr ws \<and> 0 < C \<and> 0 < vocab_size m \<and>
           margin = real ws * real (B * H * W) / real (vocab_size m) * 0.08"
  using assms
  by (auto simp: usage_margin_def bind_r_eq_Inr split: if_splits)

text \<open>
  C5, as amended.  When \<^verbatim>\<open>forward\<close> is called with \<^verbatim>\<open>ret_usages=True\<close> and returns,
  the utilisation of every scale is the percentage of the codes whose count in the
  row of the scale, after the call, is at least (\<open>\<ge>\<close>) the margin
  \<open>world_size * (B * H * W) / vocab_size * 0.08\<close>: the tokens counted are those of the
  whole local batch, \<^verbatim>\<open>numel() / shape[1]\<close>.
\<close>

theorem C5_usages:
  assumes "forward K env m st f True = (st', Inr (out, us, loss))"
  shows "\<exists>ws B C H W margin.
     get_world_size env = Inr ws \<and> shape f = [B, C, H, W] \<and>
     margin = real ws * real (B * H * W) / real (vocab_size m) * 0.08 \<and>
     us = Some (map (\<lambda>si. usage_of_row margin (ema_vocab_hit_SV st' ! si))
                  [0..<length (v_patch_nums m)]) \<and>
     (\<forall>row. row \<noteq> [] \<longrightarrow>
        usage_of_row margin row =
          Some (real (card {v. v < length row \<and> margin \<le> row ! v}) / real (length row) * 100))"
proof -
  from forward_Inr_facts [OF assms] obtain B C H W mg u where
    sh: "shape f = [B, C, H, W]"
    and mg: "usage_margin env m (prod_list (shape f)) C = Inr mg"
    and u: "usages_of m st' mg = Inr u" "us = Some u" by auto
  from usage_margin_Inr [OF mg [unfolded sh]] obtain ws where
    ws: "get_world_size env = Inr ws"
    and m: "mg = real ws * real (B * H * W) / real (vocab_size m) * 0.08" by blast
  from u have "us = Some (map (\<lambda>si. usage_of_row mg (ema_vocab_hit_SV st' ! si))
                  [0..<length (v_patch_nums m)])"
    by (auto simp: usages_of_def split: if_splits)
  then show ?thesis using ws sh m usage_of_row_card by blast
qed

text \<open>
  The small module on batches of two samples and of one sample, for a histogram with the
  rows \<open>[a]\<close> and \<open>[b]\<close>: the margins are \<open>1 * 8 / 1 * 0.08\<close> and \<open>1 * 4 / 1 * 0.08\<close>.
\<close>

lemma demo_forward_usages2:
  "\<exists>out loss. forward K env_off demo_module \<lparr>ema_vocab_hit_SV = [[a], [b]], record_hit = 5\<rparr>
       \<lparr>shape = [2, 1, 2, 2], dtype = Float32, dat = d\<rparr> True
     = (\<lparr>ema_vocab_hit_SV = [[a], [b]], record_hit = 5\<rparr>,
        Inr (out, Some [usage_of_row (16 / 25) [a], usage_of_row (16 / 25) [b]], loss))"
  apply (simp add: forward_unfold demo_module_def)
  apply (simp add: scale_unfold env_off_def)
  apply (simp add: finish_unfold del: usage_of_row_def)
  done

lemma demo_forward_usages1:
  "\<exists>out loss. forward K env_off demo_module \<lparr>ema_vocab_hit_SV = [[a], [b]], record_hit = 5\<rparr>
       \<lparr>shape = [1, 1, 2, 2], dtype = Float32, dat = d\<rparr> True
     = (\<lparr>ema_vocab_hit_SV = [[a], [b]], record_hit = 5\<rparr>,
        Inr (out, Some [usage_of_row (8 / 25) [a], usage_of_row (8 / 25) [b]], loss))"
  apply (simp add: forward_unfold demo_module_def)
  apply (simp add: scale_unfold env_off_def)
  apply (simp add: finish_unfold del: usage_of_row_def)
  done

text \<open>A batch of two samples: a count of 0.5 is below the margin 0.64, a count of 1 is not.\<close>

theorem C5_witness:
  "\<forall>(K :: 'd kernels) d. \<exists>st' out us loss.
     forward K env_off demo_module \<lparr>ema_vocab_hit_SV = [[1 / 2], [1]], record_hit = 5\<rparr>
       \<lparr>shape = [2, 1, 2, 2], dtype = Float32, dat = d\<rparr> True
       = (st', Inr (out, us, loss)) \<and>
     us = Some [Some 0, Some 100]"
proof (intro allI)
  fix K :: "'d kernels" and d :: 'd
  let ?st = "\<lparr>ema_vocab_hit_SV = [[1 / 2], [1]], record_hit = 5\<rparr>"
  let ?f = "\<lparr>shape = [2, 1, 2, 2], dtype = Float32, dat = d\<rparr>"
  from demo_forward_usages2 [of K "1 / 2" 1 d] obtain out loss us where
    r: "forward K env_off demo_module ?st ?f True = (?st, Inr (out, us, loss))" by blast
  from C5_usages [OF r] obtain ws B C H W margin where
    ws: "get_world_size env_off = Inr ws" and sh: "shape ?f = [B, C, H, W]"
    and m: "margin = real ws * real (B * H * W) / real (vocab_size demo_module) * 0.08"
    and us: "us = Some (map (\<lambda>si. usage_of_row margin (ema_vocab_hit_SV ?st ! si))
                  [0..<length (v_patch_nums demo_module)])" by blast
  from ws have "ws = 1" by (simp add: env_off_def)
  moreover from sh have "B = 2" "H = 2" "W = 2" by simp_all
  ultimately have "margin = 16 / 25" using m by (simp add: demo_module_def)
  with us have "us = Some [Some 0, Some 100]"
    by (simp add: demo_module_def usage_of_row_def upt_rec)
  with r show "\<exists>st' out us loss.
     forward K env_off demo_module ?st ?f True = (st', Inr (out, us, loss)) \<and>
     us = Some [Some 0, Some 100]" by blast
qed

text \<open>
  C5 as stated fails twice.  For a batch of two samples the margin of the code is 0.64
  and a count of 0.5 gives 0 percent, where the margin with \<open>H * W\<close> tokens, 0.32, gives
  100 percent.  For a batch of one sample and a count equal to the margin 0.32 the
  code gives 100 percent, where a count that must exceed the margin gives 0 percent.
\<close>

theorem C5_counterexample:
  "\<forall>(K :: 'd kernels) d.
     (\<exists>st' out loss.
        forward K env_off demo_module \<lparr>ema_vocab_hit_SV = [[1 / 2], [1 / 2]], record_hit = 5\<rparr>
          \<lparr>shape = [2, 1, 2, 2], dtype = Float32, dat = d\<rparr> True
          = (st', Inr (out, Some [Some 0, Some 0], loss))) \<and>
     get_world_size env_off = Inr 1 \<and> vocab_size demo_module = 1 \<and>
     map (\<lambda>row. Some (spec_usage (spec_margin 1 2 2 1) row)) [[1 / 2], [1 / 2]]
       = [Some 100, Some 100] \<and>
     (\<exists>st' out loss.
        forward K env_off demo_module \<lparr>ema_vocab_hit_SV = [[8 / 25], [8 / 25]], record_hit = 5\<rparr>
          \<lparr>shape = [1, 1, 2, 2], dtype = Float32, dat = d\<rparr> True
          = (st', Inr (out, Some [Some 100, Some 100], loss))) \<and>
     map (\<lambda>row. Some (spec_usage (spec_margin 1 2 2 1) row)) [[8 / 25], [8 / 25]]
       = [Some 0, Some 0]"
proof (intro allI conjI)
  fix K :: "'d kernels" and d :: 'd
  show "\<exists>st' out loss.
        forward K env_off demo_module \<lparr>ema_vocab_hit_SV = [[1 / 2], [1 / 2]], record_hit = 5\<rparr>
          \<lparr>shape = [2, 1, 2, 2], dtype = Float32, dat = d\<rparr> True
          = (st', Inr (out, Some [Some 0, Some 0], loss))"
    using demo_forward_usages2 [of K "1 / 2" "1 / 2" d] by (auto simp: usage_of_row_def)
  show "\<exists>st' out loss.
        forward K env_off demo_module \<lparr>ema_vocab_hit_SV = [[8 / 25], [8 / 25]], record_hit = 5\<rparr>
          \<lparr>shape = [1, 1, 2, 2], dtype = Float32, dat = d\<rparr> True
          = (st', Inr (out, Some [Some 100, Some 100], loss))"
    using demo_forward_usages1 [of K "8 / 25" "8 / 25" d] by (auto simp: usage_of_row_def)
qed (simp_all add: env_off_def demo_module_def spec_usage_def spec_margin_def)

subsection \<open>A resolution that is not the last scale's\<close>

text \<open>
  \<^verbatim>\<open>f_to_idxBl_or_fhat\<close> asserts the precondition before its loop: for an input whose
  resolution differs from the last entry of the pyramid in effect, the module's or the
  caller's, the result is the assertion failure, whatever \<^verbatim>\<open>to_fhat\<close> is.
\<close>

lemma f_to_idxBl_or_fhat_asserts:
  assumes "shape f = [B, C, H, W]" and "patch_hws_of m arg \<noteq> []"
    and "last (patch_hws_of m arg) \<noteq> (H, W)"
  shows "f_to_idxBl_or_fhat K m f to_fhat arg = Inl AssertionError"
  using assms by (auto simp: f_to_idxBl_or_fhat_def unpack4_def Let_def prod_eq_iff)

text \<open>
  C6.  \<^verbatim>\<open>forward\<close> has no such assertion.  The small module (last scale 2 by 2) on
  an input of 3 by 3 positions, in distributed training: the first scale is processed
  and its row of the histogram and the counter are written; the failure comes at the
  last scale, as the RuntimeError of \<^verbatim>\<open>idx_N.view(B, pn, pn)\<close> on 9 indices.  On the
  same input \<^verbatim>\<open>f_to_idxBl_or_fhat\<close> fails at once with the assertion.
\<close>

theorem C6_forward_fails_late:
  "\<forall>(K :: 'd kernels) d.
     shape (demo_input 3 Float32 d) = [1, 1, 3, 3] \<and> last (v_patch_nums demo_module) = 2 \<and>
     training demo_module \<and> initialized env_single \<and>
     forward K env_single demo_module demo_state (demo_input 3 Float32 d) False
       = (\<lparr>ema_vocab_hit_SV = [[1], [0]], record_hit = 1\<rparr>, Inl RuntimeError) \<and>
     demo_state = \<lparr>ema_vocab_hit_SV = [[0], [0]], record_hit = 0\<rparr> \<and>
     f_to_idxBl_or_fhat K demo_module (demo_input 3 Float32 d) False None = Inl AssertionError"
proof (intro allI conjI)
  fix K :: "'d kernels" and d :: 'd
  show "forward K env_single demo_module demo_state (demo_input 3 Float32 d) False
       = (\<lparr>ema_vocab_hit_SV = [[1], [0]], record_hit = 1\<rparr>, Inl RuntimeError)"
    apply (simp add: forward_unfold demo_module_def)
    apply (simp add: scale_unfold env_single_def demo_state_def)
    done
  show "f_to_idxBl_or_fhat K demo_module (demo_input 3 Float32 d) False None = Inl AssertionError"
    by (rule f_to_idxBl_or_fhat_asserts [where B = 1 and C = 1 and H = 3 and W = 3])
       (simp_all add: demo_input_def patch_hws_of_def demo_module_def)
qed (simp_all add: demo_input_def demo_module_def env_single_def demo_state_def)

subsection \<open>The decode steps\<close>

text \<open>
  C3, as amended.  \<^verbatim>\<open>get_next_mask_input\<close> never changes \<^verbatim>\<open>f_hat\<close>.  When it
  returns, it has computed the contribution \<open>h\<close> by bicubic upsampling of \<^verbatim>\<open>h_BChw\<close>
  to the full resolution followed by the unit of the scale, at every scale, and it
  returns the running reconstruction as it was before the step and the contribution,
  each area-downsampled to the resolution of the current scale \<open>si\<close>.
  \<^verbatim>\<open>get_next_autoregressive_input\<close> computes this same \<open>h\<close> at a scale that is not
  the last and adds it to \<^verbatim>\<open>f_hat\<close> in place; at the last scale it applies the
  unit to \<^verbatim>\<open>h_BChw\<close> without upsampling and adds the result to \<^verbatim>\<open>f_hat\<close> in
  place.
\<close>

theorem C3_mask_input_no_accumulation:
  assumes "get_next_mask_input K m si SN f_hat h_BChw = (f_after, Inr (f_hat_int, h_int))"
  shows "f_after = f_hat \<and>
     (\<exists>u up h.
        quant_resi_get m si SN = Inr u \<and>
        interpolate K Bicubic (last (v_patch_nums m), last (v_patch_nums m)) h_BChw = Inr up \<and>
        unit_call K m u up = Inr h \<and>
        si < length (v_patch_nums m) \<and>
        interpolate K Area (v_patch_nums m ! si, v_patch_nums m ! si) f_hat = Inr f_hat_int \<and>
        interpolate K Area (v_patch_nums m ! si, v_patch_nums m ! si) h = Inr h_int \<and>
        (int si \<noteq> SN - 1 \<longrightarrow>
           fst (get_next_autoregressive_input K m si SN f_hat h_BChw) =
             (case t_binop_inplace (add_k K) f_hat h of Inl e \<Rightarrow> f_hat | Inr f_hat' \<Rightarrow> f_hat')) \<and>
        (int si = SN - 1 \<longrightarrow>
           fst (get_next_autoregressive_input K m si SN f_hat h_BChw) =
             (case bind_r (unit_call K m u h_BChw) (t_binop_inplace (add_k K) f_hat) of
                Inl e \<Rightarrow> f_hat | Inr f_hat' \<Rightarrow> f_hat')))"
proof -
  from assms have fa: "f_after = f_hat" and ne: "v_patch_nums m \<noteq> []"
    by (auto simp: get_next_mask_input_def split: if_splits)
  from assms ne obtain u up h where
    u: "quant_resi_get m si SN = Inr u"
    and up: "interpolate K Bicubic (last (v_patch_nums m), last (v_patch_nums m)) h_BChw = Inr up"
    and h: "unit_call K m u up = Inr h"
    and si: "si < length (v_patch_nums m)"
    and a: "interpolate K Area (v_patch_nums m ! si, v_patch_nums m ! si) f_hat = Inr f_hat_int"
    and b: "interpolate K Area (v_patch_nums m ! si, v_patch_nums m ! si) h = Inr h_int"
    by (auto simp: get_next_mask_input_def Let_def bind_r_eq_Inr split: if_splits)
  have "fst (get_next_autoregressive_input K m si SN f_hat h_BChw) =
             (case t_binop_inplace (add_k K) f_hat h of Inl e \<Rightarrow> f_hat | Inr f_hat' \<Rightarrow> f_hat')"
    if "int si \<noteq> SN - 1"
    using that ne u up h
    by (simp add: get_next_autoregressive_input_def Let_def split: sum.splits)
  moreover have "fst (get_next_autoregressive_input K m si SN f_hat h_BChw) =
             (case bind_r (unit_call K m u h_BChw) (t_binop_inplace (add_k K) f_hat) of
                Inl e \<Rightarrow> f_hat | Inr f_hat' \<Rightarrow> f_hat')"
    if "int si = SN - 1"
    using that ne u
    by (simp add: get_next_autoregressive_input_def Let_def split: sum.splits)
  ultimately show ?thesis using fa u up h si a b by blast
qed

lemma mask_input_keeps_f_hat: "fst (get_next_mask_input K m si SN f_hat h_BChw) = f_hat"
  by (simp add: get_next_mask_input_def)

lemmas step_unfold =
  get_next_mask_input_def get_next_autoregressive_input_def quant_resi_get_def scale_pos_def
  unit_call_def interpolate_def t_binop_inplace_def broadcast_shapes_def scalar_kernels_def
  unit_module_def

text \<open>
  C3 as stated fails: on the running reconstruction 5 and the contribution 1 (one
  element, identity units, exact kernels), \<^verbatim>\<open>get_next_autoregressive_input\<close> leaves
  6 in \<^verbatim>\<open>f_hat\<close>, while \<^verbatim>\<open>get_next_mask_input\<close> leaves 5 and returns 5 as the
  running reconstruction.
\<close>

theorem C3_counterexample:
  "get_next_autoregressive_input scalar_kernels unit_module 0 2 (t1 5) (t1 1)
     = (t1 6, Inr (t1 6, t1 6)) \<and>
   get_next_mask_input scalar_kernels unit_module 0 2 (t1 5) (t1 1)
     = (t1 5, Inr (t1 5, t1 1))"
  by (simp add: step_unfold t1_def)

text \<open>
  The same module at scale 0 of 2, which is not the last, and at scale 1 of 2, which is:
  both steps leave 5 in \<^verbatim>\<open>f_hat\<close> where \<^verbatim>\<open>get_next_autoregressive_input\<close>
  leaves 6.
\<close>

theorem C3_witness:
  "get_next_mask_input scalar_kernels unit_module 0 2 (t1 5) (t1 1)
     = (t1 5, Inr (t1 5, t1 1)) \<and>
   fst (get_next_autoregressive_input scalar_kernels unit_module 0 2 (t1 5) (t1 1)) = t1 6 \<and>
   get_next_mask_input scalar_kernels unit_module 1 2 (t1 5) (t1 1)
     = (t1 5, Inr (t1 5, t1 1)) \<and>
   fst (get_next_autoregressive_input scalar_kernels unit_module 1 2 (t1 5) (t1 1)) = t1 6"
proof -
  have r: "get_next_mask_input scalar_kernels unit_module 0 2 (t1 5) (t1 1)
     = (t1 5, Inr (t1 5, t1 1))" by (simp add: step_unfold t1_def)
  from C3_mask_input_no_accumulation [OF r] obtain u up h where
    u: "quant_resi_get unit_module 0 2 = Inr u"
    and up: "interpolate scalar_kernels Bicubic
        (last (v_patch_nums unit_module), last (v_patch_nums unit_module)) (t1 1) = Inr up"
    and h: "unit_call scalar_kernels unit_module u up = Inr h"
    and ar: "int 0 \<noteq> (2::int) - 1 \<longrightarrow>
        fst (get_next_autoregressive_input scalar_kernels unit_module 0 2 (t1 5) (t1 1)) =
          (case t_binop_inplace (add_k scalar_kernels) (t1 5) h of
             Inl e \<Rightarrow> t1 5 | Inr f_hat' \<Rightarrow> f_hat')" by blast
  from up have "up = t1 1" by (simp add: step_unfold t1_def)
  with h have "h = t1 1" by (simp add: step_unfold)
  with ar have a0: "fst (get_next_autoregressive_input scalar_kernels unit_module 0 2 (t1 5) (t1 1)) = t1 6"
    by (simp add: t_binop_inplace_def broadcast_shapes_def scalar_kernels_def t1_def)
  have r1: "get_next_mask_input scalar_kernels unit_module 1 2 (t1 5) (t1 1)
     = (t1 5, Inr (t1 5, t1 1))" by (simp add: step_unfold t1_def)
  from C3_mask_input_no_accumulation [OF r1] obtain u1 where
    u1: "quant_resi_get unit_module 1 2 = Inr u1"
    and ar1: "int 1 = (2::int) - 1 \<longrightarrow>
        fst (get_next_autoregressive_input scalar_kernels unit_module 1 2 (t1 5) (t1 1)) =
          (case bind_r (unit_call scalar_kernels unit_module u1 (t1 1))
                  (t_binop_inplace (add_k scalar_kernels) (t1 5)) of
             Inl e \<Rightarrow> t1 5 | Inr f_hat' \<Rightarrow> f_hat')" by blast
  from ar1 have a1: "fst (get_next_autoregressive_input scalar_kernels unit_module 1 2 (t1 5) (t1 1)) = t1 6"
    by (simp add: unit_call_def unit_module_def t_binop_inplace_def broadcast_shapes_def
          scalar_kernels_def t1_def)
  from r a0 r1 a1 show ?thesis by simp
qed

subsection \<open>Teacher forcing\<close>

lemma take_agree_nth:
  assumes "take n xs = take n ys" "i < n"
  shows "(length xs \<le> i \<longleftrightarrow> length ys \<le> i) \<and> (i < length xs \<longrightarrow> xs ! i = ys ! i)"
proof -
  from assms(1) have "length (take n xs) = length (take n ys)" by simp
  then have l: "min (length xs) n = min (length ys) n" by simp
  with assms(2) have a: "length xs \<le> i \<longleftrightarrow> length ys \<le> i" by (auto simp: min_def split: if_splits)
  have "xs ! i = ys ! i" if "i < length xs"
  proof -
    have "take n xs ! i = take n ys ! i" using assms(1) by simp
    then show ?thesis using assms(2) by simp
  qed
  with a show ?thesis by simp
qed

lemma ns_scale_agree:
  assumes "take n gt = take n gt'" "si < n"
  shows "ns_scale K m gt B HW SN si s = ns_scale K m gt' B HW SN si s"
  using take_agree_nth [OF assms]
  by (cases s) (auto simp: ns_scale_def)

lemma ns_loop_extends:
  "ns_loop K m gt B HW SN sis s acc = Inr segs \<Longrightarrow>
     \<exists>ext. segs = acc @ ext \<and> length ext = length sis"
proof (induction sis arbitrary: s acc)
  case Nil
  then show ?case by simp
next
  case (Cons si sis)
  from Cons.prems obtain f' pn' seg where
    "ns_scale K m gt B HW SN si s = Inr (f', pn', seg)"
    and r: "ns_loop K m gt B HW SN sis (f', pn') (acc @ [seg]) = Inr segs"
    by (auto simp: bind_r_eq_Inr)
  from Cons.IH [OF r] show ?case by auto
qed

lemma ns_loop_agree:
  assumes "take n gt = take n gt'"
    and "ns_loop K m gt B HW SN [a..<b] s acc = Inr segs"
    and "ns_loop K m gt' B HW SN [a..<b] s acc = Inr segs'"
  shows "take (length acc + (min b n - a)) segs = take (length acc + (min b n - a)) segs'"
  using assms(2,3)
proof (induction "b - a" arbitrary: a s acc)
  case 0
  then show ?case by simp
next
  case (Suc k)
  then have ab: "a < b" and k: "k = b - Suc a" by simp_all
  then have u: "[a..<b] = a # [Suc a..<b]" by (simp add: upt_rec)
  from Suc.prems(1) [unfolded u] obtain f1 pn1 seg1 where
    s1: "ns_scale K m gt B HW SN a s = Inr (f1, pn1, seg1)"
    and r1: "ns_loop K m gt B HW SN [Suc a..<b] (f1, pn1) (acc @ [seg1]) = Inr segs"
    by (auto simp: bind_r_eq_Inr)
  from Suc.prems(2) [unfolded u] obtain f2 pn2 seg2 where
    s2: "ns_scale K m gt' B HW SN a s = Inr (f2, pn2, seg2)"
    and r2: "ns_loop K m gt' B HW SN [Suc a..<b] (f2, pn2) (acc @ [seg2]) = Inr segs'"
    by (auto simp: bind_r_eq_Inr)
  show ?case
  proof (cases "a < n")
    case True
    from ns_scale_agree [OF assms(1) True, of K m B HW SN s] s1 s2
    have e: "f2 = f1" "pn2 = pn1" "seg2 = seg1" by simp_all
    from Suc.hyps(1) [OF k r1 r2 [unfolded e]]
    have "take (length (acc @ [seg1]) + (min b n - Suc a)) segs
        = take (length (acc @ [seg1]) + (min b n - Suc a)) segs'" .
    moreover have "length (acc @ [seg1]) + (min b n - Suc a) = length acc + (min b n - a)"
      using True ab by simp
    ultimately show ?thesis by (simp only:)
  next
    case False
    then have z: "min b n - a = 0" by simp
    from ns_loop_extends [OF Suc.prems(1)] ns_loop_extends [OF Suc.prems(2)]
    show ?thesis unfolding z by auto
  qed
qed

lemma tokens_BLC_Inr:
  "tokens_BLC K x = Inr t \<Longrightarrow> \<exists>b c h w. shape x = [b, c, h, w] \<and> shape t = [b, h * w, c]"
  by (auto simp: tokens_BLC_def split: list.splits if_splits)

lemma ns_scale_shapes:
  assumes "ns_scale K m gt B HW SN si (f_hat, pn) = Inr (f_hat', pn', seg)"
    and "shape f_hat = [B, C, HW, HW]"
  shows "shape f_hat' = [B, C, HW, HW] \<and> pn' = v_patch_nums m ! Suc si \<and>
         shape seg = [B, v_patch_nums m ! Suc si * v_patch_nums m ! Suc si, C]"
  using assms
  by (auto simp: ns_scale_def bind_r_eq_Inr split: if_splits
           dest!: t_binop_inplace_Inr interpolate_Inr tokens_BLC_Inr)

lemma ns_loop_shapes:
  assumes "ns_loop K m gt B HW SN [a..<b] (f_hat, pn) acc = Inr segs"
    and "shape f_hat = [B, C, HW, HW]" and "i < b - a"
  shows "shape (segs ! (length acc + i)) =
           [B, v_patch_nums m ! Suc (a + i) * v_patch_nums m ! Suc (a + i), C]"
  using assms
proof (induction "b - a" arbitrary: a f_hat pn acc i)
  case 0
  then show ?case by simp
next
  case (Suc k)
  then have ab: "a < b" and k: "k = b - Suc a" by simp_all
  then have u: "[a..<b] = a # [Suc a..<b]" by (simp add: upt_rec)
  from Suc.prems(1) [unfolded u] obtain f1 pn1 seg1 where
    s1: "ns_scale K m gt B HW SN a (f_hat, pn) = Inr (f1, pn1, seg1)"
    and r1: "ns_loop K m gt B HW SN [Suc a..<b] (f1, pn1) (acc @ [seg1]) = Inr segs"
    by (auto simp: bind_r_eq_Inr)
  from ns_scale_shapes [OF s1 Suc.prems(2)]
  have f1: "shape f1 = [B, C, HW, HW]"
    and g1: "shape seg1 = [B, v_patch_nums m ! Suc a * v_patch_nums m ! Suc a, C]" by simp_all
  show ?case
  proof (cases i)
    case 0
    from ns_loop_extends [OF r1] obtain ext where "segs = (acc @ [seg1]) @ ext" by blast
    then have "segs ! length acc = seg1" by (simp add: nth_append)
    with g1 0 show ?thesis by simp
  next
    case (Suc i')
    with Suc.prems(3) have "i' < b - Suc a" by simp
    from Suc.hyps(1) [OF k r1 f1 this] show ?thesis using Suc by simp
  qed
qed

lemma torch_cat_dim1_Inr: "torch_cat_dim1 ts = Inr c \<Longrightarrow> cat_parts c = ts"
  by (auto simp: torch_cat_dim1_def split: if_splits list.splits)

lemma cat_offset_take:
  "take j (cat_parts c) = take j (cat_parts c') \<Longrightarrow> cat_offset c j = cat_offset c' j"
  by (simp add: cat_offset_def)

text \<open>
  C7.  Segment \<open>j\<close> of the concatenated output of \<^verbatim>\<open>idxBl_to_ns_input\<close> has
  \<open>pn * pn\<close> tokens for \<open>pn\<close> the patch number of scale \<open>j + 1\<close>: it is the query for
  scale \<open>j + 1\<close>.  Two runs that return, on ground-truth lists that agree on the scales
  \<open>0..j\<close>, have the same segment \<open>j\<close> at the same offset, however the lists differ
  on the scales \<open>j + 1\<close> and later.  So the query for a scale is computed from the
  strictly earlier scales only, which is more than the claim asks.
\<close>

theorem C7_teacher_forcing_causal:
  assumes "idxBl_to_ns_input K m gt = Inr (Some c)"
    and "idxBl_to_ns_input K m gt' = Inr (Some c')"
    and "take (Suc j) gt = take (Suc j) gt'"
    and "j < length (v_patch_nums m) - 1"
  shows "length (cat_parts c) = length (v_patch_nums m) - 1 \<and>
         length (cat_parts c') = length (v_patch_nums m) - 1 \<and>
         cat_parts c ! j = cat_parts c' ! j \<and>
         cat_offset c j = cat_offset c' j \<and>
         shape (cat_parts c ! j) =
           [idx_B (hd gt), v_patch_nums m ! Suc j * v_patch_nums m ! Suc j, Cvae m]"
proof -
  define SN where "SN = length (v_patch_nums m)"
  define HW where "HW = last (v_patch_nums m)"
  define B where "B = idx_B (hd gt)"
  define f0 where "f0 = \<lparr>shape = [B, Cvae m, HW, HW], dtype = Float32,
                          dat = zeros_k K [B, Cvae m, HW, HW]\<rparr>"
  from assms(1) have ne: "gt \<noteq> []" by (auto simp: idxBl_to_ns_input_def split: if_splits)
  from assms(2) have ne': "gt' \<noteq> []" by (auto simp: idxBl_to_ns_input_def split: if_splits)
  have "hd (take (Suc j) gt) = hd gt" "hd (take (Suc j) gt') = hd gt'"
    using ne ne' by (simp_all add: hd_take)
  with assms(3) have hd: "hd gt' = hd gt" by simp
  from assms(1) ne obtain segs where
    l: "ns_loop K m gt B HW SN [0..<SN - 1] (f0, hd (v_patch_nums m)) [] = Inr segs"
    and c: "torch_cat_dim1 segs = Inr c"
    unfolding idxBl_to_ns_input_def SN_def HW_def B_def f0_def
    by (auto simp: Let_def bind_r_eq_Inr split: if_splits)
  from assms(2) ne' obtain segs' where
    l': "ns_loop K m gt' B HW SN [0..<SN - 1] (f0, hd (v_patch_nums m)) [] = Inr segs'"
    and c': "torch_cat_dim1 segs' = Inr c'"
    unfolding idxBl_to_ns_input_def SN_def HW_def B_def f0_def hd
    by (auto simp: Let_def bind_r_eq_Inr split: if_splits)
  have p: "cat_parts c = segs" "cat_parts c' = segs'"
    using torch_cat_dim1_Inr [OF c] torch_cat_dim1_Inr [OF c'] by simp_all
  from ns_loop_extends [OF l] ns_loop_extends [OF l']
  have len: "length segs = SN - 1" "length segs' = SN - 1" by auto
  from ns_loop_agree [OF assms(3) l l']
  have "take (min (SN - 1) (Suc j)) segs = take (min (SN - 1) (Suc j)) segs'" by simp
  moreover have "min (SN - 1) (Suc j) = Suc j" using assms(4) by (simp add: SN_def)
  ultimately have t: "take (Suc j) segs = take (Suc j) segs'" by simp
  then have "take (Suc j) segs ! j = take (Suc j) segs' ! j" by simp
  then have nth: "segs ! j = segs' ! j" by simp
  from t have "take j (take (Suc j) segs) = take j (take (Suc j) segs')" by simp
  then have tj: "take j segs = take j segs'" by (simp add: min_def)
  have "shape f0 = [B, Cvae m, HW, HW]" by (simp add: f0_def)
  from ns_loop_shapes [OF l this, of j] assms(4)
  have sh: "shape (segs ! j) = [B, v_patch_nums m ! Suc j * v_patch_nums m ! Suc j, Cvae m]"
    by (simp add: SN_def)
  show ?thesis
    using len nth sh cat_offset_take [of j c c'] tj
    unfolding p SN_def B_def by (simp add: p)
qed

text \<open>
  Two lists that agree on scale 0 and differ on scales 1 and 2: the query for scale 1
  is the same.
\<close>

lemmas ns_unfold =
  idxBl_to_ns_input_def ns_scale_def embed_view_def interpolate_def quant_resi_get_def
  scale_pos_def unit_call_def t_binop_inplace_def broadcast_shapes_def tokens_BLC_def
  torch_cat_dim1_def tri_module_def upt_rec

lemma tri_ns_returns:
  "\<exists>c. idxBl_to_ns_input K tri_module gt_a = Inr (Some c)"
  "\<exists>c. idxBl_to_ns_input K tri_module gt_b = Inr (Some c)"
  by (simp_all add: ns_unfold gt_a_def gt_b_def)

theorem C7_witness:
  "\<forall>K :: 'd kernels. \<exists>c c'.
     idxBl_to_ns_input K tri_module gt_a = Inr (Some c) \<and>
     idxBl_to_ns_input K tri_module gt_b = Inr (Some c') \<and>
     take (Suc 0) gt_a = take (Suc 0) gt_b \<and> gt_a ! 1 \<noteq> gt_b ! 1 \<and> gt_a ! 2 \<noteq> gt_b ! 2 \<and>
     (0::nat) < length (v_patch_nums tri_module) - 1 \<and>
     cat_parts c ! 0 = cat_parts c' ! 0 \<and> cat_offset c 0 = cat_offset c' 0 \<and>
     shape (cat_parts c ! 0) = [1, 4, 1]"
proof
  fix K :: "'d kernels"
  from tri_ns_returns [of K] obtain c c' where
    r: "idxBl_to_ns_input K tri_module gt_a = Inr (Some c)"
    and r': "idxBl_to_ns_input K tri_module gt_b = Inr (Some c')" by blast
  have t: "take (Suc 0) gt_a = take (Suc 0) gt_b" by (simp add: gt_a_def gt_b_def)
  have j: "(0::nat) < length (v_patch_nums tri_module) - 1" by (simp add: tri_module_def)
  from C7_teacher_forcing_causal [OF r r' t j]
  have "cat_parts c ! 0 = cat_parts c' ! 0 \<and> cat_offset c 0 = cat_offset c' 0 \<and>
        shape (cat_parts c ! 0) = [1, 4, 1]"
    by (auto simp: tri_module_def gt_a_def)
  moreover have "gt_a ! 1 \<noteq> gt_b ! 1" "gt_a ! 2 \<noteq> gt_b ! 2" by (simp_all add: gt_a_def gt_b_def)
  ultimately show "\<exists>c c'.
     idxBl_to_ns_input K tri_module gt_a = Inr (Some c) \<and>
     idxBl_to_ns_input K tri_module gt_b = Inr (Some c') \<and>
     take (Suc 0) gt_a = take (Suc 0) gt_b \<and> gt_a ! 1 \<noteq> gt_b ! 1 \<and> gt_a ! 2 \<noteq> gt_b ! 2 \<and>
     (0::nat) < length (v_patch_nums tri_module) - 1 \<and>
     cat_parts c ! 0 = cat_parts c' ! 0 \<and> cat_offset c 0 = cat_offset c' 0 \<and>
     shape (cat_parts c ! 0) = [1, 4, 1]"
    using r r' t j by blast
qed

subsection \<open>Masked input\<close>




















end
